theory Spec2Isabelle
  imports Complex_Main "HOL-Library.Word" "HOL-Library.Signed_Division" "HOL-Library.AList"
begin

section \<open>The Entra ID exporter: collectors, caches and the refresh loop\<close>

text \<open>
  A shallow embedding of the collector package (\<^verbatim>\<open>collector/users.go\<close> with the
  \<^verbatim>\<open>base.go\<close> that follows it, and the older \<^verbatim>\<open>base.go\<close>, \<^verbatim>\<open>devices.go\<close> and
  \<^verbatim>\<open>general.go\<close>), of \<^verbatim>\<open>config.go\<close> and of the collector set-up of \<^verbatim>\<open>main.go\<close>.

  Conventions.
  \<^item> A Go \<^verbatim>\<open>error\<close> is its message, a \<^verbatim>\<open>string\<close>; a call returning \<^verbatim>\<open>(T, error)\<close>
    returns \<open>string + T\<close>, \<open>Inl\<close> the error.
  \<^item> A pointer that may be \<^verbatim>\<open>nil\<close> is an \<open>option\<close>; dereferencing \<open>None\<close> is a
    run-time panic, carried as a value (\<open>Some\<close> of the panic's message).
  \<^item> Everything outside the process (environment variables, the Azure identity
    library, the Microsoft Graph service, the clock) is a record of operations
    \<open>'w sdk\<close> over a state of the outside world \<open>'w\<close>; every operation that can
    depend on or change the world takes the world and returns the new one.
  \<^item> Mutexes are left out: the embedding is sequential. Log calls are left out.
  \<^item> \<^verbatim>\<open>float64\<close> values are real numbers; the conversions the code makes
    (lengths, counts, seconds) are modelled by the exact value.
\<close>

subsection \<open>Prometheus metric vectors\<close>

type_synonym labels = "string list"
type_synonym CounterVec = "labels \<rightharpoonup> nat"
type_synonym GaugeVec = "labels \<rightharpoonup> real"
type_synonym SummaryVec = "labels \<rightharpoonup> real list"

text \<open>\<^verbatim>\<open>vec.WithLabelValues(ls).Inc()\<close>: the child is created at zero when absent.\<close>

definition CounterInc :: "labels \<Rightarrow> CounterVec \<Rightarrow> CounterVec" where
  "CounterInc ls v = v(ls \<mapsto> (case v ls of None \<Rightarrow> 1 | Some n \<Rightarrow> n + 1))"

text \<open>\<^verbatim>\<open>vec.WithLabelValues(ls).Set(x)\<close>.\<close>

definition GaugeSet :: "labels \<Rightarrow> real \<Rightarrow> GaugeVec \<Rightarrow> GaugeVec" where
  "GaugeSet ls x v = v(ls \<mapsto> x)"

text \<open>\<^verbatim>\<open>vec.WithLabelValues(ls).Observe(x)\<close>: the observations of a child, oldest first.\<close>

definition SummaryObserve :: "labels \<Rightarrow> real \<Rightarrow> SummaryVec \<Rightarrow> SummaryVec" where
  "SummaryObserve ls x v = v(ls \<mapsto> (case v ls of None \<Rightarrow> [x] | Some xs \<Rightarrow> xs @ [x]))"

subsection \<open>Time\<close>

text \<open>
  A \<^verbatim>\<open>time.Duration\<close> is an \<^verbatim>\<open>int64\<close> of nanoseconds; a \<^verbatim>\<open>time.Time\<close> is taken as
  the nanoseconds since the epoch. \<^verbatim>\<open>Seconds\<close>, \<^verbatim>\<open>Sub\<close> and \<^verbatim>\<open>Unix\<close> follow Go's
  \<^verbatim>\<open>time\<close> package: \<^verbatim>\<open>d / Second\<close> and \<^verbatim>\<open>d % Second\<close> truncate towards zero,
  \<^verbatim>\<open>Sub\<close> saturates.
\<close>

type_synonym Duration = "64 word"
type_synonym Time = int

definition Second :: int where
  "Second = 1000000000"

definition Seconds :: "Duration \<Rightarrow> real" where
  "Seconds d =
     (let sec = sint d sdiv Second;
          nsec = sint d smod Second
      in real_of_int sec + real_of_int nsec / 1000000000)"

definition Sub :: "Time \<Rightarrow> Time \<Rightarrow> Duration" where
  "Sub t u =
     (let d = t - u
      in if d > 9223372036854775807 then word_of_int 9223372036854775807
         else if d < - 9223372036854775808 then word_of_int (- 9223372036854775808)
         else word_of_int d)"

definition Unix :: "Time \<Rightarrow> int" where
  "Unix t = t div Second"

subsection \<open>The outside world\<close>

datatype credential = DefaultAzureCredential nat
datatype auth_provider = AzureIdentityAuthenticationProvider nat
datatype adapter = GraphRequestAdapter nat
datatype client = GraphServiceClient nat

text \<open>
  The query parameters and the request configuration of a \<^verbatim>\<open>Get\<close> on a collection
  (\<^verbatim>\<open>UsersRequestBuilderGetQueryParameters\<close>, \<^verbatim>\<open>DevicesRequestBuilderGetQueryParameters\<close>:
  only \<^verbatim>\<open>Top\<close> and \<^verbatim>\<open>Select\<close> are ever set). A \<^verbatim>\<open>nil\<close> configuration is \<open>None\<close>.
\<close>

record query_parameters =
  Top :: "32 word option"
  Select :: "string list"

record request_configuration =
  QueryParameters :: "query_parameters option"

text \<open>A page of a collection, as its getters read it.\<close>

record 'e collection_response =
  GetValue :: "'e list option"
  GetOdataNextLink :: "string option"
  GetOdataCount :: "64 word option"

record user =
  user_Id :: "string option"
  user_UserPrincipalName :: "string option"
  user_DisplayName :: "string option"
  user_AccountEnabled :: "bool option"
  user_UserType :: "string option"
  user_CreationType :: "string option"

record device =
  device_Id :: "string option"
  device_DisplayName :: "string option"
  device_OperatingSystem :: "string option"
  device_OperatingSystemVersion :: "string option"
  device_AccountEnabled :: "bool option"
  device_TrustType :: "string option"
  device_EnrollmentType :: "string option"
  device_DeviceCategory :: "string option"
  device_ManagementType :: "string option"
  device_RegistrationDateTime :: "Time option"

datatype application = Application nat
datatype service_principal = ServicePrincipal nat
datatype group = Group nat

text \<open>
  A \<^verbatim>\<open>Get\<close> on a collection of a client: the request configuration is all the
  caller passes (the request always goes to the collection's own URL). It
  returns an error, or a page that may be \<^verbatim>\<open>nil\<close>.
\<close>

type_synonym ('w, 'e) get =
  "client \<Rightarrow> request_configuration option \<Rightarrow> 'w \<Rightarrow> (string + 'e collection_response option) \<times> 'w"

record 'w sdk =
  Getenv :: "'w \<Rightarrow> string \<Rightarrow> string"
  NewDefaultAzureCredential :: "string \<Rightarrow> 'w \<Rightarrow> (string + credential) \<times> 'w"
  GetToken :: "credential \<Rightarrow> string list \<Rightarrow> 'w \<Rightarrow> (string + unit) \<times> 'w"
  NewAzureIdentityAuthenticationProvider :: "credential \<Rightarrow> 'w \<Rightarrow> (string + auth_provider) \<times> 'w"
  NewGraphRequestAdapter :: "auth_provider \<Rightarrow> 'w \<Rightarrow> (string + adapter) \<times> 'w"
  NewGraphServiceClient :: "adapter \<Rightarrow> 'w \<Rightarrow> client \<times> 'w"
  UsersGet :: "('w, user) get"
  DevicesGet :: "('w, device) get"
  ApplicationsGet :: "('w, application) get"
  ServicePrincipalsGet :: "('w, service_principal) get"
  GroupsGet :: "('w, group) get"
  Now :: "'w \<Rightarrow> Time \<times> 'w"
  FormatRFC3339 :: "Time \<Rightarrow> string"

text \<open>The message of the panic of a \<^verbatim>\<open>nil\<close> dereference.\<close>

definition nil_dereference :: string where
  "nil_dereference = ''runtime error: invalid memory address or nil pointer dereference''"

subsection \<open>Configuration (\<^verbatim>\<open>config.go\<close>)\<close>

record CollectorConfig =
  ScrapeTime :: Duration

definition IsEnabled :: "CollectorConfig \<Rightarrow> bool" where
  "IsEnabled c = (Seconds (ScrapeTime c) > 0)"

record Config =
  Tenants :: "string list"
  General :: CollectorConfig
  Users :: CollectorConfig
  Devices :: CollectorConfig
  Applications :: CollectorConfig
  ServicePrincipals :: CollectorConfig
  Groups :: CollectorConfig
  ConditionalAccessPolicies :: CollectorConfig
  DirectoryRoles :: CollectorConfig

subsection \<open>The base collector (\<^verbatim>\<open>base.go\<close>)\<close>

record BaseCollector =
  name :: string
  config :: Config
  scrapeTime :: Duration
  graphClients :: "string \<rightharpoonup> client"
  scrapeErrors :: CounterVec
  scrapeDuration :: SummaryVec
  lastScrapeTime :: GaugeVec

definition NewBaseCollector :: "string \<Rightarrow> Duration \<Rightarrow> Config \<Rightarrow> BaseCollector" where
  "NewBaseCollector nm st cfg =
     \<lparr>name = nm, config = cfg, scrapeTime = st, graphClients = Map.empty,
      scrapeErrors = Map.empty, scrapeDuration = Map.empty, lastScrapeTime = Map.empty\<rparr>"

text \<open>The families \<^verbatim>\<open>BaseCollector.Describe\<close> sends, by name.\<close>

definition BaseCollector_Describe :: "string \<Rightarrow> string list" where
  "BaseCollector_Describe nm =
     [''entraid_'' @ nm @ ''_scrape_errors_total'',
      ''entraid_'' @ nm @ ''_scrape_duration_seconds'',
      ''entraid_'' @ nm @ ''_last_scrape_time'']"

text \<open>
  \<^verbatim>\<open>GetGraphClient\<close> of \<^verbatim>\<open>collector/users.go\<close> (lines 269--358). The part run under
  the write lock starts with the second look at the cache. When the tenant is
  empty the parameter \<^verbatim>\<open>tenantID\<close> is overwritten with \<^verbatim>\<open>AZURE_TENANT_ID\<close>, and
  the overwritten value is the key the client is stored under.
\<close>

definition GetGraphClient_locked ::
  "'w sdk \<Rightarrow> string \<Rightarrow> 'a BaseCollector_scheme \<Rightarrow> 'w \<Rightarrow>
     (string + client) \<times> 'a BaseCollector_scheme \<times> 'w" where
  "GetGraphClient_locked sdk tenantID c w =
     (case graphClients c tenantID of
        Some client \<Rightarrow> (Inr client, c, w)
      | None \<Rightarrow>
          (let tenantID = (if tenantID = '''' then Getenv sdk w ''AZURE_TENANT_ID'' else tenantID);
               credOptions_TenantID = (if tenantID \<noteq> '''' then tenantID else '''')
           in case NewDefaultAzureCredential sdk credOptions_TenantID w of
                (Inl err, w1) \<Rightarrow> (Inl (''failed to create credential: '' @ err), c, w1)
              | (Inr cred, w1) \<Rightarrow>
                  (case GetToken sdk cred [''https://graph.microsoft.com/.default''] w1 of
                     (Inl err, w2) \<Rightarrow> (Inl (''failed to validate credential: '' @ err), c, w2)
                   | (Inr _, w2) \<Rightarrow>
                       (case NewAzureIdentityAuthenticationProvider sdk cred w2 of
                          (Inl err, w3) \<Rightarrow> (Inl (''failed to create auth provider: '' @ err), c, w3)
                        | (Inr authProvider, w3) \<Rightarrow>
                            (case NewGraphRequestAdapter sdk authProvider w3 of
                               (Inl err, w4) \<Rightarrow> (Inl (''failed to create adapter: '' @ err), c, w4)
                             | (Inr adapter, w4) \<Rightarrow>
                                 (let (client, w5) = NewGraphServiceClient sdk adapter w4
                                  in (Inr client,
                                      c\<lparr>graphClients := (graphClients c)(tenantID \<mapsto> client)\<rparr>,
                                      w5)))))))"

definition GetGraphClient ::
  "'w sdk \<Rightarrow> string \<Rightarrow> 'a BaseCollector_scheme \<Rightarrow> 'w \<Rightarrow>
     (string + client) \<times> 'a BaseCollector_scheme \<times> 'w" where
  "GetGraphClient sdk tenantID c w =
     (case graphClients c tenantID of
        Some client \<Rightarrow> (Inr client, c, w)
      | None \<Rightarrow> GetGraphClient_locked sdk tenantID c w)"

text \<open>
  \<^verbatim>\<open>GetGraphClient\<close> of the older \<^verbatim>\<open>base.go\<close> (lines 71--113 of the file that also
  holds \<^verbatim>\<open>devices.go\<close> and \<^verbatim>\<open>general.go\<close>): no token is requested, and the key
  is the tenant as passed.
\<close>

definition GetGraphClient_locked_part004 ::
  "'w sdk \<Rightarrow> string \<Rightarrow> 'a BaseCollector_scheme \<Rightarrow> 'w \<Rightarrow>
     (string + client) \<times> 'a BaseCollector_scheme \<times> 'w" where
  "GetGraphClient_locked_part004 sdk tenantID c w =
     (case graphClients c tenantID of
        Some client \<Rightarrow> (Inr client, c, w)
      | None \<Rightarrow>
          (case NewDefaultAzureCredential sdk tenantID w of
             (Inl err, w1) \<Rightarrow> (Inl (''failed to create credential: '' @ err), c, w1)
           | (Inr cred, w1) \<Rightarrow>
               (case NewAzureIdentityAuthenticationProvider sdk cred w1 of
                  (Inl err, w2) \<Rightarrow> (Inl (''failed to create auth provider: '' @ err), c, w2)
                | (Inr authProvider, w2) \<Rightarrow>
                    (case NewGraphRequestAdapter sdk authProvider w2 of
                       (Inl err, w3) \<Rightarrow> (Inl (''failed to create adapter: '' @ err), c, w3)
                     | (Inr adapter, w3) \<Rightarrow>
                         (let (client, w4) = NewGraphServiceClient sdk adapter w3
                          in (Inr client,
                              c\<lparr>graphClients := (graphClients c)(tenantID \<mapsto> client)\<rparr>,
                              w4))))))"

definition GetGraphClient_part004 ::
  "'w sdk \<Rightarrow> string \<Rightarrow> 'a BaseCollector_scheme \<Rightarrow> 'w \<Rightarrow>
     (string + client) \<times> 'a BaseCollector_scheme \<times> 'w" where
  "GetGraphClient_part004 sdk tenantID c w =
     (case graphClients c tenantID of
        Some client \<Rightarrow> (Inr client, c, w)
      | None \<Rightarrow> GetGraphClient_locked_part004 sdk tenantID c w)"

text \<open>\<^verbatim>\<open>GetTenants\<close>, of \<^verbatim>\<open>collector/users.go\<close> and of the older \<^verbatim>\<open>base.go\<close>.\<close>

definition GetTenants :: "'w sdk \<Rightarrow> 'a BaseCollector_scheme \<Rightarrow> 'w \<Rightarrow> string list" where
  "GetTenants sdk c w =
     (let tenants = Tenants (config c)
      in if length tenants = 0 then
           (let envTenant = Getenv sdk w ''AZURE_TENANT_ID''
            in if envTenant \<noteq> '''' then [envTenant] else [''''])
         else tenants)"

definition GetTenants_part004 :: "'a BaseCollector_scheme \<Rightarrow> string list" where
  "GetTenants_part004 c =
     (if length (Tenants (config c)) > 0 then Tenants (config c) else [''''])"

text \<open>
  \<^verbatim>\<open>StartCacheInvalidator\<close> spawns a loop that never returns. Its behaviour is
  the sequence of events of its first \<open>n\<close> iterations, from a state \<open>s\<close> (the
  collector and the world); \<^verbatim>\<open>collect\<close> returns the value a \<^verbatim>\<open>recover()\<close> would
  see (\<open>None\<close> when it returned normally) and the new state, or never returns.

  In \<^verbatim>\<open>collector/users.go\<close> (lines 396--432) the call of \<^verbatim>\<open>collect\<close> is wrapped in
  a function with a deferred \<^verbatim>\<open>recover\<close>; the sleep follows the wrapped call. The
  outer deferred \<^verbatim>\<open>recover\<close> guards the statements of the loop outside the wrapped
  call (log calls and \<^verbatim>\<open>time.Sleep\<close>), which do not panic.
\<close>

datatype event = Completed | Recovered string | Slept Duration | Crashed string | Blocked

fun StartCacheInvalidator ::
  "nat \<Rightarrow> ('s \<Rightarrow> (string option \<times> 's) option) \<Rightarrow> ('s \<Rightarrow> Duration) \<Rightarrow> 's \<Rightarrow> event list" where
  "StartCacheInvalidator 0 collect scrape_time s = []"
| "StartCacheInvalidator (Suc n) collect scrape_time s =
     (case collect s of
        None \<Rightarrow> [Blocked]
      | Some (None, s') \<Rightarrow>
          Completed # Slept (scrape_time s') # StartCacheInvalidator n collect scrape_time s'
      | Some (Some r, s') \<Rightarrow>
          Recovered r # Slept (scrape_time s') # StartCacheInvalidator n collect scrape_time s')"

text \<open>
  In the older \<^verbatim>\<open>base.go\<close> (lines 141--152) the loop calls \<^verbatim>\<open>collect\<close> directly: a
  panic is not recovered and ends the goroutine, and the process with it.
\<close>

fun StartCacheInvalidator_part004 ::
  "nat \<Rightarrow> ('s \<Rightarrow> (string option \<times> 's) option) \<Rightarrow> ('s \<Rightarrow> Duration) \<Rightarrow> 's \<Rightarrow> event list" where
  "StartCacheInvalidator_part004 0 collect scrape_time s = []"
| "StartCacheInvalidator_part004 (Suc n) collect scrape_time s =
     (case collect s of
        None \<Rightarrow> [Blocked]
      | Some (None, s') \<Rightarrow>
          Completed # Slept (scrape_time s') # StartCacheInvalidator_part004 n collect scrape_time s'
      | Some (Some r, s') \<Rightarrow> [Crashed r])"

subsection \<open>Manual pagination (\<^verbatim>\<open>users.go\<close> lines 167--182, \<^verbatim>\<open>devices.go\<close> lines 360--375)\<close>

text \<open>
  The loop runs while the last page carries a non-empty next link. Every
  further page is requested with a \<^verbatim>\<open>nil\<close> request configuration on the same
  request builder: the next link is tested, never passed on. An error counts
  against the tenant and leaves the loop; a \<^verbatim>\<open>nil\<close> page with no error panics at
  \<^verbatim>\<open>result.GetValue()\<close>. The loop may run forever: not returning is \<open>None\<close>.
\<close>

definition has_next_link :: "'e collection_response \<Rightarrow> bool" where
  "has_next_link result =
     (case GetOdataNextLink result of None \<Rightarrow> False | Some link \<Rightarrow> length link > 0)"

definition append_value :: "'e list \<Rightarrow> 'e collection_response \<Rightarrow> 'e list" where
  "append_value list result = (case GetValue result of None \<Rightarrow> list | Some v \<Rightarrow> list @ v)"

partial_function (option) pagination_loop ::
  "(request_configuration option \<Rightarrow> 'w \<Rightarrow> (string + 'e collection_response option) \<times> 'w) \<Rightarrow>
     string \<Rightarrow> 'e collection_response \<Rightarrow> 'e list \<Rightarrow> 'a BaseCollector_scheme \<Rightarrow> 'w \<Rightarrow>
     (string option \<times> 'e list \<times> 'a BaseCollector_scheme \<times> 'w) option" where
  "pagination_loop get tenantID result list c w =
     (if has_next_link result then
        (case get None w of
           (Inl err, w') \<Rightarrow>
             Some (None, list, c\<lparr>scrapeErrors := CounterInc [tenantID] (scrapeErrors c)\<rparr>, w')
         | (Inr None, w') \<Rightarrow> Some (Some nil_dereference, list, c, w')
         | (Inr (Some result'), w') \<Rightarrow>
             pagination_loop get tenantID result' (append_value list result') c w')
      else Some (None, list, c, w))"

declare pagination_loop.simps [code]

text \<open>The end of the loop body: the duration and the time of the scrape.\<close>

definition update_scrape_metrics ::
  "'w sdk \<Rightarrow> string \<Rightarrow> Time \<Rightarrow> 'a BaseCollector_scheme \<Rightarrow> 'w \<Rightarrow> 'a BaseCollector_scheme \<times> 'w" where
  "update_scrape_metrics sdk tenantID start c w =
     (let (t1, w1) = Now sdk w;
          duration = Seconds (Sub t1 start);
          c1 = c\<lparr>scrapeDuration := SummaryObserve [tenantID] duration (scrapeDuration c)\<rparr>;
          (t2, w2) = Now sdk w1;
          c2 = c1\<lparr>lastScrapeTime := GaugeSet [tenantID] (real_of_int (Unix t2)) (lastScrapeTime c1)\<rparr>
      in (c2, w2))"

subsection \<open>The users collector (\<^verbatim>\<open>collector/users.go\<close>)\<close>

record UsersCollector = BaseCollector +
  usersList :: "(string \<times> user list) list"
  usersTotal :: GaugeVec
  usersInfo :: GaugeVec

definition NewUsersCollector :: "Config \<Rightarrow> UsersCollector" where
  "NewUsersCollector cfg =
     BaseCollector.extend (NewBaseCollector ''users'' (ScrapeTime (Users cfg)) cfg)
       (UsersCollector.fields [] Map.empty Map.empty)"

definition UsersCollector_Describe :: "string list" where
  "UsersCollector_Describe =
     BaseCollector_Describe ''users'' @ [''entraid_users_total'', ''entraid_users_info'']"

text \<open>
  The label values of one user's \<^verbatim>\<open>entraid_users_info\<close> sample (lines 84--107):
  \<open>Inl\<close> is the panic of dereferencing a \<^verbatim>\<open>nil\<close> id, principal name or display
  name, in the order the arguments are evaluated.
\<close>

definition user_info_labels :: "string \<Rightarrow> user \<Rightarrow> string + labels" where
  "user_info_labels tenantID user =
     (let accountEnabled =
            (case user_AccountEnabled user of Some True \<Rightarrow> ''true'' | _ \<Rightarrow> ''false'');
          userType = (case user_UserType user of None \<Rightarrow> ''unknown'' | Some t \<Rightarrow> t);
          creationType = (case user_CreationType user of None \<Rightarrow> ''unknown'' | Some t \<Rightarrow> t)
      in case user_Id user of
           None \<Rightarrow> Inl nil_dereference
         | Some uid \<Rightarrow>
             (case user_UserPrincipalName user of
                None \<Rightarrow> Inl nil_dereference
              | Some upn \<Rightarrow>
                  (case user_DisplayName user of
                     None \<Rightarrow> Inl nil_dereference
                   | Some displayName \<Rightarrow>
                       Inr [tenantID, uid, upn, displayName, accountEnabled, userType,
                            creationType])))"

fun UsersCollector_Collect_users :: "string \<Rightarrow> user list \<Rightarrow> GaugeVec \<Rightarrow> string option \<times> GaugeVec" where
  "UsersCollector_Collect_users tenantID [] info = (None, info)"
| "UsersCollector_Collect_users tenantID (user # rest) info =
     (case user_info_labels tenantID user of
        Inl r \<Rightarrow> (Some r, info)
      | Inr ls \<Rightarrow> UsersCollector_Collect_users tenantID rest (GaugeSet ls 1 info))"

text \<open>
  The outer loop of \<^verbatim>\<open>Collect\<close> ranges over the cache; the association list
  gives the order of one iteration of the Go map.
\<close>

fun UsersCollector_Collect_tenants ::
  "(string \<times> user list) list \<Rightarrow> GaugeVec \<Rightarrow> GaugeVec \<Rightarrow> string option \<times> GaugeVec \<times> GaugeVec" where
  "UsersCollector_Collect_tenants [] tot info = (None, tot, info)"
| "UsersCollector_Collect_tenants ((tenantID, users) # rest) tot info =
     (let tot' = GaugeSet [tenantID] (real (length users)) tot
      in case UsersCollector_Collect_users tenantID users info of
           (Some r, info') \<Rightarrow> (Some r, tot', info')
         | (None, info') \<Rightarrow> UsersCollector_Collect_tenants rest tot' info')"

text \<open>
  \<^verbatim>\<open>Collect\<close> (lines 73--113): the panic, if any, and the collector with its
  gauges as the scrape leaves them. The gauges are what the scrape exposes.
\<close>

definition UsersCollector_Collect :: "UsersCollector \<Rightarrow> string option \<times> UsersCollector" where
  "UsersCollector_Collect c =
     (case UsersCollector_Collect_tenants (usersList c) (usersTotal c) (usersInfo c) of
        (r, tot, info) \<Rightarrow> (r, c\<lparr>usersTotal := tot, usersInfo := info\<rparr>))"

definition users_reqConfig :: request_configuration where
  "users_reqConfig =
     \<lparr>QueryParameters = Some \<lparr>Top = Some 100,
        Select = [''id'', ''userPrincipalName'', ''displayName'', ''accountEnabled'',
                  ''userType'', ''creationType'']\<rparr>\<rparr>"

text \<open>The body of the loop over the tenants of \<^verbatim>\<open>collect\<close> (lines 121--193).\<close>

definition UsersCollector_collect_tenant ::
  "'w sdk \<Rightarrow> string \<Rightarrow> UsersCollector \<Rightarrow> 'w \<Rightarrow> (string option \<times> UsersCollector \<times> 'w) option" where
  "UsersCollector_collect_tenant sdk tenantID c w =
     (let (start, w0) = Now sdk w
      in case GetGraphClient sdk tenantID c w0 of
           (Inl err, c1, w1) \<Rightarrow>
             Some (None, c1\<lparr>scrapeErrors := CounterInc [tenantID] (scrapeErrors c1)\<rparr>, w1)
         | (Inr client, c1, w1) \<Rightarrow>
             (case UsersGet sdk client (Some users_reqConfig) w1 of
                (Inl err, w2) \<Rightarrow>
                  Some (None, c1\<lparr>scrapeErrors := CounterInc [tenantID] (scrapeErrors c1)\<rparr>, w2)
              | (Inr None, w2) \<Rightarrow> Some (Some nil_dereference, c1, w2)
              | (Inr (Some result), w2) \<Rightarrow>
                  (case pagination_loop (UsersGet sdk client) tenantID result
                          (append_value [] result) c1 w2 of
                     None \<Rightarrow> None
                   | Some (Some r, users, c2, w3) \<Rightarrow> Some (Some r, c2, w3)
                   | Some (None, users, c2, w3) \<Rightarrow>
                       (let c3 = c2\<lparr>usersList := AList.update tenantID users (usersList c2)\<rparr>;
                            (c4, w4) = update_scrape_metrics sdk tenantID start c3 w3
                        in Some (None, c4, w4)))))"

fun UsersCollector_collect_tenants ::
  "'w sdk \<Rightarrow> string list \<Rightarrow> UsersCollector \<Rightarrow> 'w \<Rightarrow> (string option \<times> UsersCollector \<times> 'w) option" where
  "UsersCollector_collect_tenants sdk [] c w = Some (None, c, w)"
| "UsersCollector_collect_tenants sdk (tenantID # rest) c w =
     (case UsersCollector_collect_tenant sdk tenantID c w of
        None \<Rightarrow> None
      | Some (Some r, c', w') \<Rightarrow> Some (Some r, c', w')
      | Some (None, c', w') \<Rightarrow> UsersCollector_collect_tenants sdk rest c' w')"

definition UsersCollector_collect ::
  "'w sdk \<Rightarrow> UsersCollector \<Rightarrow> 'w \<Rightarrow> (string option \<times> UsersCollector \<times> 'w) option" where
  "UsersCollector_collect sdk c w = UsersCollector_collect_tenants sdk (GetTenants sdk c w) c w"

subsection \<open>The devices collector (\<^verbatim>\<open>devices.go\<close>)\<close>

text \<open>
  \<^verbatim>\<open>devices.go\<close> and \<^verbatim>\<open>general.go\<close> come in one file with the older \<^verbatim>\<open>base.go\<close>;
  their calls of \<^verbatim>\<open>GetGraphClient\<close> and \<^verbatim>\<open>GetTenants\<close> are read as calls of that
  file's functions.
\<close>

record DevicesCollector = BaseCollector +
  devicesList :: "(string \<times> device list) list"
  devicesTotal :: GaugeVec
  devicesInfo :: GaugeVec

definition NewDevicesCollector :: "Config \<Rightarrow> DevicesCollector" where
  "NewDevicesCollector cfg =
     BaseCollector.extend (NewBaseCollector ''devices'' (ScrapeTime (Devices cfg)) cfg)
       (DevicesCollector.fields [] Map.empty Map.empty)"

definition DevicesCollector_Describe :: "string list" where
  "DevicesCollector_Describe =
     BaseCollector_Describe ''devices'' @ [''entraid_devices_total'', ''entraid_devices_info'']"

text \<open>The label values of one device's \<^verbatim>\<open>entraid_devices_info\<close> sample (lines 241--294).\<close>

definition device_info_labels :: "(Time \<Rightarrow> string) \<Rightarrow> string \<Rightarrow> device \<Rightarrow> string + labels" where
  "device_info_labels format tenantID device =
     (let accountEnabled =
            (case device_AccountEnabled device of Some True \<Rightarrow> ''true'' | _ \<Rightarrow> ''false'');
          operatingSystem =
            (case device_OperatingSystem device of None \<Rightarrow> ''unknown'' | Some x \<Rightarrow> x);
          operatingSystemVersion =
            (case device_OperatingSystemVersion device of None \<Rightarrow> ''unknown'' | Some x \<Rightarrow> x);
          trustType = (case device_TrustType device of None \<Rightarrow> ''unknown'' | Some x \<Rightarrow> x);
          deviceCategory =
            (case device_DeviceCategory device of None \<Rightarrow> ''unknown'' | Some x \<Rightarrow> x);
          enrollmentType =
            (case device_EnrollmentType device of None \<Rightarrow> ''unknown'' | Some x \<Rightarrow> x);
          managementType =
            (case device_ManagementType device of None \<Rightarrow> ''unknown'' | Some x \<Rightarrow> x);
          registrationDateTime =
            (case device_RegistrationDateTime device of None \<Rightarrow> ''unknown'' | Some t \<Rightarrow> format t)
      in case device_Id device of
           None \<Rightarrow> Inl nil_dereference
         | Some did \<Rightarrow>
             (case device_DisplayName device of
                None \<Rightarrow> Inl nil_dereference
              | Some displayName \<Rightarrow>
                  Inr [tenantID, did, displayName, deviceCategory, operatingSystem,
                       operatingSystemVersion, trustType, enrollmentType, accountEnabled,
                       managementType, ''n/a'', registrationDateTime]))"

fun DevicesCollector_Collect_devices ::
  "(Time \<Rightarrow> string) \<Rightarrow> string \<Rightarrow> device list \<Rightarrow> GaugeVec \<Rightarrow> string option \<times> GaugeVec" where
  "DevicesCollector_Collect_devices format tenantID [] info = (None, info)"
| "DevicesCollector_Collect_devices format tenantID (device # rest) info =
     (case device_info_labels format tenantID device of
        Inl r \<Rightarrow> (Some r, info)
      | Inr ls \<Rightarrow> DevicesCollector_Collect_devices format tenantID rest (GaugeSet ls 1 info))"

fun DevicesCollector_Collect_tenants ::
  "(Time \<Rightarrow> string) \<Rightarrow> (string \<times> device list) list \<Rightarrow> GaugeVec \<Rightarrow> GaugeVec \<Rightarrow>
     string option \<times> GaugeVec \<times> GaugeVec" where
  "DevicesCollector_Collect_tenants format [] tot info = (None, tot, info)"
| "DevicesCollector_Collect_tenants format ((tenantID, devices) # rest) tot info =
     (let tot' = GaugeSet [tenantID] (real (length devices)) tot
      in case DevicesCollector_Collect_devices format tenantID devices info of
           (Some r, info') \<Rightarrow> (Some r, tot', info')
         | (None, info') \<Rightarrow> DevicesCollector_Collect_tenants format rest tot' info')"

definition DevicesCollector_Collect ::
  "'w sdk \<Rightarrow> DevicesCollector \<Rightarrow> string option \<times> DevicesCollector" where
  "DevicesCollector_Collect sdk c =
     (case DevicesCollector_Collect_tenants (FormatRFC3339 sdk) (devicesList c) (devicesTotal c)
             (devicesInfo c) of
        (r, tot, info) \<Rightarrow> (r, c\<lparr>devicesTotal := tot, devicesInfo := info\<rparr>))"

definition devices_reqConfig :: request_configuration where
  "devices_reqConfig =
     \<lparr>QueryParameters = Some \<lparr>Top = Some 100,
        Select = [''id'', ''displayName'', ''operatingSystem'', ''operatingSystemVersion'',
                  ''accountEnabled'', ''trustType'', ''enrollmentType'', ''deviceCategory'',
                  ''managementType'', ''registrationDateTime'']\<rparr>\<rparr>"

text \<open>The body of the loop over the tenants of \<^verbatim>\<open>collect\<close> (lines 308--386).\<close>

definition DevicesCollector_collect_tenant ::
  "'w sdk \<Rightarrow> string \<Rightarrow> DevicesCollector \<Rightarrow> 'w \<Rightarrow> (string option \<times> DevicesCollector \<times> 'w) option" where
  "DevicesCollector_collect_tenant sdk tenantID c w =
     (let (start, w0) = Now sdk w
      in case GetGraphClient_part004 sdk tenantID c w0 of
           (Inl err, c1, w1) \<Rightarrow>
             Some (None, c1\<lparr>scrapeErrors := CounterInc [tenantID] (scrapeErrors c1)\<rparr>, w1)
         | (Inr client, c1, w1) \<Rightarrow>
             (case DevicesGet sdk client (Some devices_reqConfig) w1 of
                (Inl err, w2) \<Rightarrow>
                  Some (None, c1\<lparr>scrapeErrors := CounterInc [tenantID] (scrapeErrors c1)\<rparr>, w2)
              | (Inr None, w2) \<Rightarrow> Some (Some nil_dereference, c1, w2)
              | (Inr (Some result), w2) \<Rightarrow>
                  (case pagination_loop (DevicesGet sdk client) tenantID result
                          (append_value [] result) c1 w2 of
                     None \<Rightarrow> None
                   | Some (Some r, devices, c2, w3) \<Rightarrow> Some (Some r, c2, w3)
                   | Some (None, devices, c2, w3) \<Rightarrow>
                       (let c3 = c2\<lparr>devicesList := AList.update tenantID devices (devicesList c2)\<rparr>;
                            (c4, w4) = update_scrape_metrics sdk tenantID start c3 w3
                        in Some (None, c4, w4)))))"

fun DevicesCollector_collect_tenants ::
  "'w sdk \<Rightarrow> string list \<Rightarrow> DevicesCollector \<Rightarrow> 'w \<Rightarrow> (string option \<times> DevicesCollector \<times> 'w) option" where
  "DevicesCollector_collect_tenants sdk [] c w = Some (None, c, w)"
| "DevicesCollector_collect_tenants sdk (tenantID # rest) c w =
     (case DevicesCollector_collect_tenant sdk tenantID c w of
        None \<Rightarrow> None
      | Some (Some r, c', w') \<Rightarrow> Some (Some r, c', w')
      | Some (None, c', w') \<Rightarrow> DevicesCollector_collect_tenants sdk rest c' w')"

definition DevicesCollector_collect ::
  "'w sdk \<Rightarrow> DevicesCollector \<Rightarrow> 'w \<Rightarrow> (string option \<times> DevicesCollector \<times> 'w) option" where
  "DevicesCollector_collect sdk c w =
     DevicesCollector_collect_tenants sdk (GetTenants_part004 c) c w"

subsection \<open>The general collector (\<^verbatim>\<open>general.go\<close>)\<close>

record GeneralCollector = BaseCollector +
  stats :: "(string \<times> (string \<times> real) list) list"
  statsMetric :: GaugeVec

definition NewGeneralCollector :: "Config \<Rightarrow> GeneralCollector" where
  "NewGeneralCollector cfg =
     BaseCollector.extend (NewBaseCollector ''general'' (ScrapeTime (General cfg)) cfg)
       (GeneralCollector.fields [] Map.empty)"

definition GeneralCollector_Describe :: "string list" where
  "GeneralCollector_Describe = BaseCollector_Describe ''general'' @ [''entraid_stats'']"

text \<open>\<^verbatim>\<open>Collect\<close> (lines 442--456): every cached statistic is set on the gauge vector.\<close>

fun GeneralCollector_Collect_metrics :: "string \<Rightarrow> (string \<times> real) list \<Rightarrow> GaugeVec \<Rightarrow> GaugeVec" where
  "GeneralCollector_Collect_metrics tenantID [] g = g"
| "GeneralCollector_Collect_metrics tenantID ((metric, v) # rest) g =
     GeneralCollector_Collect_metrics tenantID rest (GaugeSet [tenantID, metric] v g)"

fun GeneralCollector_Collect_tenants ::
  "(string \<times> (string \<times> real) list) list \<Rightarrow> GaugeVec \<Rightarrow> GaugeVec" where
  "GeneralCollector_Collect_tenants [] g = g"
| "GeneralCollector_Collect_tenants ((tenantID, metrics) # rest) g =
     GeneralCollector_Collect_tenants rest (GeneralCollector_Collect_metrics tenantID metrics g)"

definition GeneralCollector_Collect :: "GeneralCollector \<Rightarrow> GeneralCollector" where
  "GeneralCollector_Collect c =
     c\<lparr>statsMetric := GeneralCollector_Collect_tenants (stats c) (statsMetric c)\<rparr>"

text \<open>
  One of the five count fetches of \<^verbatim>\<open>collect\<close> (lines 477--520 repeat it for
  users, devices, applications, service principals and groups): a \<^verbatim>\<open>Get\<close> with a
  \<^verbatim>\<open>nil\<close> configuration; an error counts against the tenant, a page with a count
  sets the statistic in the tenant's new map.
\<close>

definition fetch_count ::
  "(request_configuration option \<Rightarrow> 'w \<Rightarrow> (string + 'e collection_response option) \<times> 'w) \<Rightarrow>
     string \<Rightarrow> string \<Rightarrow> (string \<times> real) list \<times> 'a BaseCollector_scheme \<times> 'w \<Rightarrow>
     (string \<times> real) list \<times> 'a BaseCollector_scheme \<times> 'w" where
  "fetch_count get tenantID metric s =
     (case s of (st, c, w) \<Rightarrow>
        (case get None w of
           (Inl err, w') \<Rightarrow>
             (st, c\<lparr>scrapeErrors := CounterInc [tenantID] (scrapeErrors c)\<rparr>, w')
         | (Inr None, w') \<Rightarrow> (st, c, w')
         | (Inr (Some page), w') \<Rightarrow>
             (case GetOdataCount page of
                None \<Rightarrow> (st, c, w')
              | Some n \<Rightarrow> (AList.update metric (real_of_int (sint n)) st, c, w'))))"

text \<open>The body of the loop over the tenants of \<^verbatim>\<open>collect\<close> (lines 464--531).\<close>

definition GeneralCollector_collect_tenant ::
  "'w sdk \<Rightarrow> string \<Rightarrow> GeneralCollector \<Rightarrow> 'w \<Rightarrow> GeneralCollector \<times> 'w" where
  "GeneralCollector_collect_tenant sdk tenantID c w =
     (let (start, w0) = Now sdk w
      in case GetGraphClient_part004 sdk tenantID c w0 of
           (Inl err, c1, w1) \<Rightarrow>
             (c1\<lparr>scrapeErrors := CounterInc [tenantID] (scrapeErrors c1)\<rparr>, w1)
         | (Inr client, c1, w1) \<Rightarrow>
             (let s1 = fetch_count (UsersGet sdk client) tenantID ''user_count'' ([], c1, w1);
                  s2 = fetch_count (DevicesGet sdk client) tenantID ''device_count'' s1;
                  s3 = fetch_count (ApplicationsGet sdk client) tenantID ''application_count'' s2;
                  s4 = fetch_count (ServicePrincipalsGet sdk client) tenantID
                         ''service_principal_count'' s3;
                  (st, c2, w2) = fetch_count (GroupsGet sdk client) tenantID ''group_count'' s4;
                  c3 = c2\<lparr>stats := AList.update tenantID st (stats c2)\<rparr>
              in update_scrape_metrics sdk tenantID start c3 w2))"

fun GeneralCollector_collect_tenants ::
  "'w sdk \<Rightarrow> string list \<Rightarrow> GeneralCollector \<Rightarrow> 'w \<Rightarrow> GeneralCollector \<times> 'w" where
  "GeneralCollector_collect_tenants sdk [] c w = (c, w)"
| "GeneralCollector_collect_tenants sdk (tenantID # rest) c w =
     (case GeneralCollector_collect_tenant sdk tenantID c w of
        (c', w') \<Rightarrow> GeneralCollector_collect_tenants sdk rest c' w')"

definition GeneralCollector_collect :: "'w sdk \<Rightarrow> GeneralCollector \<Rightarrow> 'w \<Rightarrow> GeneralCollector \<times> 'w" where
  "GeneralCollector_collect sdk c w =
     GeneralCollector_collect_tenants sdk (GetTenants_part004 c) c w"

subsection \<open>The collector set-up of \<^verbatim>\<open>main\<close>\<close>

text \<open>
  Both versions of \<^verbatim>\<open>main\<close> set the collectors up alike: a collector whose
  configuration is enabled is constructed, its constructor spawns the loop of
  \<^verbatim>\<open>StartCacheInvalidator\<close>, and the collector is registered, which registers
  the families it describes. The other five domains of the configuration are
  commented out.
\<close>

record exporter =
  generalCollector :: "GeneralCollector option"
  usersCollector :: "UsersCollector option"
  devicesCollector :: "DevicesCollector option"
  goroutines :: "string list"
  registry :: "string list"

definition main_collectors :: "Config \<Rightarrow> exporter" where
  "main_collectors cfg =
     (let e0 = \<lparr>generalCollector = None, usersCollector = None, devicesCollector = None,
                goroutines = [], registry = []\<rparr>;
          e1 = (if IsEnabled (General cfg) then
                  e0\<lparr>generalCollector := Some (NewGeneralCollector cfg),
                     goroutines := goroutines e0 @ [''general''],
                     registry := registry e0 @ GeneralCollector_Describe\<rparr>
                else e0);
          e2 = (if IsEnabled (Users cfg) then
                  e1\<lparr>usersCollector := Some (NewUsersCollector cfg),
                     goroutines := goroutines e1 @ [''users''],
                     registry := registry e1 @ UsersCollector_Describe\<rparr>
                else e1);
          e3 = (if IsEnabled (Devices cfg) then
                  e2\<lparr>devicesCollector := Some (NewDevicesCollector cfg),
                     goroutines := goroutines e2 @ [''devices''],
                     registry := registry e2 @ DevicesCollector_Describe\<rparr>
                else e2)
      in e3)"

subsection \<open>Vocabulary of the statements\<close>

text \<open>
  The entities of a sequence of pages, in order; and the answers a \<^verbatim>\<open>Get\<close>
  gives to a sequence of requests made one after the other.
\<close>

definition entities :: "'e collection_response list \<Rightarrow> 'e list" where
  "entities pages = concat (map (\<lambda>p. case GetValue p of None \<Rightarrow> [] | Some v \<Rightarrow> v) pages)"

fun responses ::
  "(request_configuration option \<Rightarrow> 'w \<Rightarrow> 'r \<times> 'w) \<Rightarrow> request_configuration option list \<Rightarrow> 'w \<Rightarrow>
     'r list \<times> 'w" where
  "responses get [] w = ([], w)"
| "responses get (cfg # cfgs) w =
     (case get cfg w of (r, w') \<Rightarrow>
        (case responses get cfgs w' of (rs, w'') \<Rightarrow> (r # rs, w'')))"

text \<open>The value of a counter child, zero when the child does not exist yet.\<close>

definition counter_value :: "CounterVec \<Rightarrow> labels \<Rightarrow> nat" where
  "counter_value v ls = (case v ls of None \<Rightarrow> 0 | Some n \<Rightarrow> n)"

text \<open>What one count fetch of the general collector yields: the count, and whether it failed.\<close>

definition count_of :: "string + 'e collection_response option \<Rightarrow> real option" where
  "count_of r =
     (case r of
        Inl err \<Rightarrow> None
      | Inr None \<Rightarrow> None
      | Inr (Some page) \<Rightarrow>
          (case GetOdataCount page of None \<Rightarrow> None | Some n \<Rightarrow> Some (real_of_int (sint n))))"

definition failed :: "string + 'a \<Rightarrow> nat" where
  "failed r = (case r of Inl err \<Rightarrow> 1 | Inr x \<Rightarrow> 0)"

subsection \<open>Stand-ins for the outside world\<close>

text \<open>
  A world that counts the calls made on it: every operation succeeds, hands
  out the count as a fresh handle, and every \<^verbatim>\<open>Get\<close> answers a \<^verbatim>\<open>nil\<close> page
  without an error. The other stand-ins change one operation or two.
\<close>

definition quiet_sdk :: "nat sdk" where
  "quiet_sdk =
     \<lparr>Getenv = (\<lambda>w k. ''''),
      NewDefaultAzureCredential = (\<lambda>t w. (Inr (DefaultAzureCredential w), w + 1)),
      GetToken = (\<lambda>cred scopes w. (Inr (), w + 1)),
      NewAzureIdentityAuthenticationProvider =
        (\<lambda>cred w. (Inr (AzureIdentityAuthenticationProvider w), w + 1)),
      NewGraphRequestAdapter = (\<lambda>p w. (Inr (GraphRequestAdapter w), w + 1)),
      NewGraphServiceClient = (\<lambda>a w. (GraphServiceClient w, w + 1)),
      UsersGet = (\<lambda>cl cfg w. (Inr None, w + 1)),
      DevicesGet = (\<lambda>cl cfg w. (Inr None, w + 1)),
      ApplicationsGet = (\<lambda>cl cfg w. (Inr None, w + 1)),
      ServicePrincipalsGet = (\<lambda>cl cfg w. (Inr None, w + 1)),
      GroupsGet = (\<lambda>cl cfg w. (Inr None, w + 1)),
      Now = (\<lambda>w. (int w * 1000000000, w + 1)),
      FormatRFC3339 = (\<lambda>t. ''2025-01-01T00:00:00Z'')\<rparr>"

definition alice :: user where
  "alice = \<lparr>user_Id = Some ''u-1'', user_UserPrincipalName = Some ''alice@contoso.com'',
            user_DisplayName = Some ''Alice'', user_AccountEnabled = None,
            user_UserType = None, user_CreationType = None\<rparr>"

definition bob :: user where
  "bob = \<lparr>user_Id = Some ''u-2'', user_UserPrincipalName = Some ''bob@contoso.com'',
          user_DisplayName = Some ''Bob'', user_AccountEnabled = Some True,
          user_UserType = Some ''Member'', user_CreationType = Some ''Invitation''\<rparr>"

text \<open>A user whose display name is absent.\<close>

definition nameless :: user where
  "nameless = \<lparr>user_Id = Some ''u-3'', user_UserPrincipalName = Some ''carol@contoso.com'',
               user_DisplayName = None, user_AccountEnabled = Some True,
               user_UserType = Some ''Guest'', user_CreationType = None\<rparr>"

definition laptop :: device where
  "laptop = \<lparr>device_Id = Some ''d-1'', device_DisplayName = Some ''laptop-1'',
             device_OperatingSystem = Some ''Windows'', device_OperatingSystemVersion = None,
             device_AccountEnabled = Some True, device_TrustType = None,
             device_EnrollmentType = None, device_DeviceCategory = None,
             device_ManagementType = None, device_RegistrationDateTime = None\<rparr>"

definition phone :: device where
  "phone = \<lparr>device_Id = Some ''d-2'', device_DisplayName = Some ''phone-1'',
            device_OperatingSystem = Some ''iOS'', device_OperatingSystemVersion = Some ''17'',
            device_AccountEnabled = None, device_TrustType = Some ''Workplace'',
            device_EnrollmentType = None, device_DeviceCategory = None,
            device_ManagementType = Some ''MDM'', device_RegistrationDateTime = Some 0\<rparr>"

text \<open>Pages: with a next link, the last one, one with no value, one that carries a count.\<close>

definition linked_page :: "'e list \<Rightarrow> 'e collection_response" where
  "linked_page xs =
     \<lparr>GetValue = Some xs, GetOdataNextLink = Some ''https://graph.microsoft.com/v1.0/next'',
      GetOdataCount = None\<rparr>"

definition last_page :: "'e list \<Rightarrow> 'e collection_response" where
  "last_page xs = \<lparr>GetValue = Some xs, GetOdataNextLink = None, GetOdataCount = None\<rparr>"

definition no_value_page :: "'e collection_response" where
  "no_value_page = \<lparr>GetValue = None, GetOdataNextLink = None, GetOdataCount = None\<rparr>"

definition count_page :: "64 word \<Rightarrow> 'e collection_response" where
  "count_page n = \<lparr>GetValue = None, GetOdataNextLink = None, GetOdataCount = Some n\<rparr>"

text \<open>The request with a configuration is answered with a linked page, the next one fails.\<close>

definition second_page_fails_sdk :: "nat sdk" where
  "second_page_fails_sdk =
     quiet_sdk
       \<lparr>UsersGet := (\<lambda>cl cfg w.
           (case cfg of Some q \<Rightarrow> Inr (Some (linked_page [alice]))
            | None \<Rightarrow> Inl ''429 Too Many Requests'', w + 1)),
        DevicesGet := (\<lambda>cl cfg w.
           (case cfg of Some q \<Rightarrow> Inr (Some (linked_page [laptop]))
            | None \<Rightarrow> Inl ''429 Too Many Requests'', w + 1))\<rparr>"

text \<open>
  A directory of two pages. A request to the collection is answered with the
  first page, which links to the second; the second page is served at the
  link only, and no request of the collectors goes there.
\<close>

definition two_page_directory_sdk :: "nat sdk" where
  "two_page_directory_sdk =
     quiet_sdk
       \<lparr>UsersGet := (\<lambda>cl cfg w. (Inr (Some (linked_page [alice])), w + 1)),
        DevicesGet := (\<lambda>cl cfg w. (Inr (Some (linked_page [laptop])), w + 1))\<rparr>"

text \<open>\<^verbatim>\<open>AZURE_TENANT_ID\<close> is set.\<close>

definition ambient_tenant_sdk :: "nat sdk" where
  "ambient_tenant_sdk =
     quiet_sdk\<lparr>Getenv := (\<lambda>w k. if k = ''AZURE_TENANT_ID'' then ''contoso'' else '''')\<rparr>"

text \<open>No credential can be made; no token is granted before the tenth call on the world.\<close>

definition no_credential_sdk :: "nat sdk" where
  "no_credential_sdk =
     quiet_sdk\<lparr>NewDefaultAzureCredential := (\<lambda>t w. (Inl ''no credential source'', w + 1))\<rparr>"

definition late_token_sdk :: "nat sdk" where
  "late_token_sdk =
     quiet_sdk\<lparr>GetToken := (\<lambda>cred scopes w.
        (if w < 10 then Inl ''context deadline exceeded'' else Inr (), w + 1))\<rparr>"

text \<open>The first request of a tenant fails.\<close>

definition first_page_fails_sdk :: "nat sdk" where
  "first_page_fails_sdk =
     quiet_sdk
       \<lparr>UsersGet := (\<lambda>cl cfg w. (Inl ''503 Service Unavailable'', w + 1)),
        DevicesGet := (\<lambda>cl cfg w. (Inl ''503 Service Unavailable'', w + 1))\<rparr>"

text \<open>A directory with no users and no devices: one page, with no value.\<close>

definition empty_directory_sdk :: "nat sdk" where
  "empty_directory_sdk =
     quiet_sdk
       \<lparr>UsersGet := (\<lambda>cl cfg w. (Inr (Some no_value_page), w + 1)),
        DevicesGet := (\<lambda>cl cfg w. (Inr (Some no_value_page), w + 1))\<rparr>"

text \<open>Counts for four collections; the devices fetch fails.\<close>

definition counts_sdk :: "nat sdk" where
  "counts_sdk =
     quiet_sdk
       \<lparr>UsersGet := (\<lambda>cl cfg w. (Inr (Some (count_page 3)), w + 1)),
        DevicesGet := (\<lambda>cl cfg w. (Inl ''503 Service Unavailable'', w + 1)),
        ApplicationsGet := (\<lambda>cl cfg w. (Inr (Some (count_page 7)), w + 1)),
        ServicePrincipalsGet := (\<lambda>cl cfg w. (Inr (Some (count_page 2)), w + 1)),
        GroupsGet := (\<lambda>cl cfg w. (Inr (Some (count_page 4)), w + 1))\<rparr>"

text \<open>Configurations: one tenant and every collector at 30 seconds; the three collectors off.\<close>

definition one_tenant_config :: Config where
  "one_tenant_config =
     \<lparr>Tenants = [''t1''],
      General = \<lparr>ScrapeTime = 30000000000\<rparr>, Users = \<lparr>ScrapeTime = 30000000000\<rparr>,
      Devices = \<lparr>ScrapeTime = 30000000000\<rparr>, Applications = \<lparr>ScrapeTime = 30000000000\<rparr>,
      ServicePrincipals = \<lparr>ScrapeTime = 30000000000\<rparr>, Groups = \<lparr>ScrapeTime = 30000000000\<rparr>,
      ConditionalAccessPolicies = \<lparr>ScrapeTime = 30000000000\<rparr>,
      DirectoryRoles = \<lparr>ScrapeTime = 30000000000\<rparr>\<rparr>"

definition disabled_config :: Config where
  "disabled_config =
     one_tenant_config
       \<lparr>General := \<lparr>ScrapeTime = 0\<rparr>, Users := \<lparr>ScrapeTime = - 1000000000\<rparr>,
        Devices := \<lparr>ScrapeTime = 0\<rparr>\<rparr>"

text \<open>Collectors whose cache holds an earlier snapshot of tenant \<^verbatim>\<open>t1\<close>.\<close>

definition users_with_snapshot :: UsersCollector where
  "users_with_snapshot = (NewUsersCollector one_tenant_config)\<lparr>usersList := [(''t1'', [alice, bob])]\<rparr>"

definition devices_with_snapshot :: DevicesCollector where
  "devices_with_snapshot =
     (NewDevicesCollector one_tenant_config)\<lparr>devicesList := [(''t1'', [laptop, phone])]\<rparr>"

text \<open>A general collector whose gauge exposes counts of an earlier scrape.\<close>

definition general_with_scrape :: GeneralCollector where
  "general_with_scrape =
     (NewGeneralCollector one_tenant_config)
       \<lparr>stats := [(''t1'', [(''user_count'', 3), (''device_count'', 5)])],
        statsMetric := [[''t1'', ''user_count''] \<mapsto> 3, [''t1'', ''device_count''] \<mapsto> 5]\<rparr>"

text \<open>A users collector whose cache holds a user without a display name.\<close>

definition users_with_nameless :: UsersCollector where
  "users_with_nameless =
     (NewUsersCollector one_tenant_config)\<lparr>usersList := [(''t1'', [alice, nameless])]\<rparr>"

section \<open>Properties\<close>

subsection \<open>Shared lemmas\<close>

lemma Seconds_exact: "Seconds d = real_of_int (sint d) / 1000000000"
proof -
  have "(sint d :: int) = (sint d sdiv Second) * Second + sint d smod Second"
    by (rule sdiv_mult_smod_eq [symmetric])
  then have "real_of_int (sint d) =
      real_of_int (sint d sdiv Second) * 1000000000 + real_of_int (sint d smod Second)"
    by (metis Second_def of_int_add of_int_mult of_int_numeral)
  then show ?thesis
    by (simp add: Seconds_def Let_def field_simps del: of_int_sint)
qed

lemma IsEnabled_iff: "IsEnabled c \<longleftrightarrow> (0::int) < sint (ScrapeTime c)"
  unfolding IsEnabled_def Seconds_exact by (simp del: of_int_sint)

lemma Describe_distinct:
  "set GeneralCollector_Describe \<inter> set UsersCollector_Describe = {}"
  "set GeneralCollector_Describe \<inter> set DevicesCollector_Describe = {}"
  "set UsersCollector_Describe \<inter> set DevicesCollector_Describe = {}"
  by (simp_all add: GeneralCollector_Describe_def UsersCollector_Describe_def
      DevicesCollector_Describe_def BaseCollector_Describe_def)

lemma credOptions_TenantID: "(if t \<noteq> [] then t else []) = (t::string)"
  by simp

lemma GetGraphClient_frame:
  "GetGraphClient sdk T c w = (r, c1, w1) \<Longrightarrow> c1 = c\<lparr>graphClients := graphClients c1\<rparr>"
  by (auto simp add: GetGraphClient_def GetGraphClient_locked_def Let_def
      split: option.splits prod.splits sum.splits)

lemma GetGraphClient_part004_frame:
  "GetGraphClient_part004 sdk T c w = (r, c1, w1) \<Longrightarrow> c1 = c\<lparr>graphClients := graphClients c1\<rparr>"
  by (auto simp add: GetGraphClient_part004_def GetGraphClient_locked_part004_def Let_def
      split: option.splits prod.splits sum.splits)

lemma GetGraphClient_error_frame:
  "GetGraphClient sdk T c w = (Inl err, c1, w1) \<Longrightarrow> c1 = c"
  by (auto simp add: GetGraphClient_def GetGraphClient_locked_def Let_def
      split: option.splits prod.splits sum.splits)

lemma GetGraphClient_part004_error_frame:
  "GetGraphClient_part004 sdk T c w = (Inl err, c1, w1) \<Longrightarrow> c1 = c"
  by (auto simp add: GetGraphClient_part004_def GetGraphClient_locked_part004_def Let_def
      split: option.splits prod.splits sum.splits)

lemma update_scrape_metrics_eq:
  "update_scrape_metrics sdk T start c w =
     (c\<lparr>scrapeDuration := SummaryObserve [T] (Seconds (Sub (fst (Now sdk w)) start)) (scrapeDuration c),
        lastScrapeTime := GaugeSet [T] (real_of_int (Unix (fst (Now sdk (snd (Now sdk w))))))
                            (lastScrapeTime c)\<rparr>,
      snd (Now sdk (snd (Now sdk w))))"
  by (simp add: update_scrape_metrics_def Let_def split: prod.splits)

lemma counter_value_Inc [simp]: "counter_value (CounterInc ls v) ls = counter_value v ls + 1"
  by (simp add: counter_value_def CounterInc_def split: option.splits)

lemma entities_Nil [simp]: "entities [] = []"
  by (simp add: entities_def)

lemma entities_Cons [simp]: "entities (p # ps) = append_value [] p @ entities ps"
  by (simp add: entities_def append_value_def split: option.splits)

lemma append_value_append: "append_value list p = list @ append_value [] p"
  by (simp add: append_value_def split: option.splits)

lemma responses_append:
  "responses get (xs @ ys) w =
     (case responses get xs w of (rs, w') \<Rightarrow>
        (case responses get ys w' of (rs', w'') \<Rightarrow> (rs @ rs', w'')))"
  by (induction xs arbitrary: w) (auto split: prod.splits)

lemma responses_pages_then:
  assumes "responses get (cfg # replicate (Suc (length pages)) None) w1 =
             (map (\<lambda>p. Inr (Some p)) (first # pages) @ [x], w3)"
  shows "\<exists>w2 w2'. get cfg w1 = (Inr (Some first), w2) \<and>
           responses get (replicate (length pages) None) w2 = (map (\<lambda>p. Inr (Some p)) pages, w2') \<and>
           get None w2' = (x, w3)"
proof -
  obtain r1 w2 where g1: "get cfg w1 = (r1, w2)"
    by (cases "get cfg w1")
  obtain rs w2' where g2: "responses get (replicate (length pages) None) w2 = (rs, w2')"
    by (cases "responses get (replicate (length pages) None) w2")
  obtain r3 w3' where g3: "get None w2' = (r3, w3')"
    by (cases "get None w2'")
  have "responses get (cfg # (replicate (length pages) None @ [None])) w1 = (r1 # rs @ [r3], w3')"
    by (simp add: responses_append g1 g2 g3)
  with assms have "r1 = Inr (Some first)" "rs = map (\<lambda>p. Inr (Some p)) pages" "r3 = x" "w3' = w3"
    by (simp_all add: replicate_append_same)
  with g1 g2 g3 show ?thesis by simp
qed

lemma responses_pages:
  assumes "responses get (cfg # replicate (length pages) None) w1 =
             (map (\<lambda>p. Inr (Some p)) (first # pages), w3)"
  shows "\<exists>w2. get cfg w1 = (Inr (Some first), w2) \<and>
           responses get (replicate (length pages) None) w2 = (map (\<lambda>p. Inr (Some p)) pages, w3)"
  using assms by (auto split: prod.splits)

lemma pagination_loop_stop:
  "\<not> has_next_link result \<Longrightarrow> pagination_loop get T result list c w = Some (None, list, c, w)"
  by (subst pagination_loop.simps) simp

lemma pagination_loop_error:
  "has_next_link result \<Longrightarrow> get None w = (Inl err, w') \<Longrightarrow>
   pagination_loop get T result list c w =
     Some (None, list, c\<lparr>scrapeErrors := CounterInc [T] (scrapeErrors c)\<rparr>, w')"
  by (subst pagination_loop.simps) simp

lemma pagination_loop_nil:
  "has_next_link result \<Longrightarrow> get None w = (Inr None, w') \<Longrightarrow>
   pagination_loop get T result list c w = Some (Some nil_dereference, list, c, w')"
  by (subst pagination_loop.simps) simp

lemma pagination_loop_page:
  "has_next_link result \<Longrightarrow> get None w = (Inr (Some result'), w') \<Longrightarrow>
   pagination_loop get T result list c w =
     pagination_loop get T result' (append_value list result') c w'"
  by (subst pagination_loop.simps) simp

lemma pagination_loop_pages:
  "responses get (replicate (length pages) None) w = (map (\<lambda>p. Inr (Some p)) pages, w') \<Longrightarrow>
   \<forall>p \<in> set (butlast (result # pages)). has_next_link p \<Longrightarrow>
   pagination_loop get T result list c w =
     pagination_loop get T (last (result # pages)) (list @ entities pages) c w'"
proof (induction pages arbitrary: result list w)
  case Nil
  then show ?case by simp
next
  case (Cons p ps)
  from Cons.prems(1) obtain w1 where g: "get None w = (Inr (Some p), w1)"
    and r: "responses get (replicate (length ps) None) w1 = (map (\<lambda>p. Inr (Some p)) ps, w')"
    by (auto split: prod.splits)
  from Cons.prems(2) have link: "has_next_link result"
    and rest: "\<forall>q \<in> set (butlast (p # ps)). has_next_link q"
    by simp_all
  have "pagination_loop get T result list c w =
      pagination_loop get T p (append_value list p) c w1"
    using link g by (rule pagination_loop_page)
  also have "\<dots> = pagination_loop get T (last (p # ps)) (append_value list p @ entities ps) c w'"
    using r rest by (rule Cons.IH)
  finally show ?case
    by (simp add: append_value_append [of list p])
qed

lemma pagination_loop_error_after:
  assumes "responses get (replicate (length pages) None) w2 = (map (\<lambda>p. Inr (Some p)) pages, w2')"
    and "get None w2' = (Inl err, w3)"
    and "\<forall>p \<in> set (first # pages). has_next_link p"
  shows "pagination_loop get T first (append_value [] first) c w2 =
           Some (None, entities (first # pages),
                 c\<lparr>scrapeErrors := CounterInc [T] (scrapeErrors c)\<rparr>, w3)"
proof -
  from assms(3) have b: "\<forall>p \<in> set (butlast (first # pages)). has_next_link p"
    by (meson in_set_butlastD)
  have "last (first # pages) \<in> set (first # pages)"
    by (rule last_in_set) simp
  with assms(3) have l: "has_next_link (last (first # pages))"
    by blast
  have "pagination_loop get T first (append_value [] first) c w2 =
      pagination_loop get T (last (first # pages)) (append_value [] first @ entities pages) c w2'"
    using assms(1) b by (rule pagination_loop_pages)
  also have "\<dots> = Some (None, append_value [] first @ entities pages,
                 c\<lparr>scrapeErrors := CounterInc [T] (scrapeErrors c)\<rparr>, w3)"
    using l assms(2) by (rule pagination_loop_error)
  finally show ?thesis by simp
qed

lemma pagination_loop_complete:
  assumes "responses get (replicate (length pages) None) w2 = (map (\<lambda>p. Inr (Some p)) pages, w3)"
    and "\<forall>p \<in> set (butlast (first # pages)). has_next_link p"
    and "\<not> has_next_link (last (first # pages))"
  shows "pagination_loop get T first (append_value [] first) c w2 =
           Some (None, entities (first # pages), c, w3)"
proof -
  have "pagination_loop get T first (append_value [] first) c w2 =
      pagination_loop get T (last (first # pages)) (append_value [] first @ entities pages) c w3"
    using assms(1,2) by (rule pagination_loop_pages)
  also have "\<dots> = Some (None, append_value [] first @ entities pages, c, w3)"
    using assms(3) by (rule pagination_loop_stop)
  finally show ?thesis by simp
qed

text \<open>
  Against a service that answers every request without a configuration with a
  page that carries a next link, the loop never returns.
\<close>

lemma pagination_loop_diverges:
  assumes again: "\<And>w. \<exists>p w'. get None w = (Inr (Some p), w') \<and> has_next_link p"
    and link: "has_next_link result"
  shows "pagination_loop get T result list c w = None"
proof -
  have "g = get \<longrightarrow> has_next_link r \<longrightarrow> False"
    if "pagination_loop g t r l c w = Some y" for g t r l c w y
  proof (rule pagination_loop.raw_induct
      [where P = "\<lambda>g t r l c w y. g = get \<longrightarrow> has_next_link r \<longrightarrow> False", OF _ that])
    fix loop g t r l c w y
    assume IH: "\<And>g t r l c w y. loop g t r l c w = Some y \<Longrightarrow>
                  g = get \<longrightarrow> has_next_link r \<longrightarrow> False"
      and step: "(if has_next_link r then
                    (case g None w of
                       (Inl err, w') \<Rightarrow>
                         Some (None, l, c\<lparr>scrapeErrors := CounterInc [t] (scrapeErrors c)\<rparr>, w')
                     | (Inr None, w') \<Rightarrow> Some (Some nil_dereference, l, c, w')
                     | (Inr (Some result'), w') \<Rightarrow> loop g t result' (append_value l result') c w')
                  else Some (None, l, c, w)) = Some y"
    show "g = get \<longrightarrow> has_next_link r \<longrightarrow> False"
    proof (intro impI)
      assume g: "g = get" and r: "has_next_link r"
      from again obtain p w' where p: "get None w = (Inr (Some p), w')" and pl: "has_next_link p"
        by blast
      from step g r p have "loop get t p (append_value l p) c w' = Some y"
        by simp
      from IH [OF this] pl show False by simp
    qed
  qed
  then have "pagination_loop get T result list c w \<noteq> Some y" for y
    using link by blast
  then show ?thesis
    by (cases "pagination_loop get T result list c w") blast+
qed

lemma fetch_count_eq:
  "get None w = (r, w1) \<Longrightarrow>
   fetch_count get T metric (st, c, w) =
     ((case count_of r of None \<Rightarrow> st | Some v \<Rightarrow> AList.update metric v st),
      c\<lparr>scrapeErrors := (CounterInc [T] ^^ failed r) (scrapeErrors c)\<rparr>, w1)"
  by (simp add: fetch_count_def count_of_def failed_def split: sum.splits option.splits)

lemma CounterInc_funpow: "((CounterInc ls ^^ n) v) ls = (if n = 0 then v ls else Some (counter_value v ls + n))"
  by (induction n) (auto simp add: CounterInc_def counter_value_def split: option.splits)

lemma counter_value_funpow:
  "counter_value ((CounterInc ls ^^ n) v) ls = counter_value v ls + n"
  by (induction n) (auto simp add: counter_value_def CounterInc_def split: option.splits)

lemma CounterInc_funpow_add: "(CounterInc ls ^^ m) ((CounterInc ls ^^ n) v) = (CounterInc ls ^^ (n + m)) v"
  by (simp add: funpow_add add.commute)

lemma Collect_metrics_other:
  "T' \<noteq> T \<Longrightarrow> GeneralCollector_Collect_metrics T' m g [T, metric] = g [T, metric]"
  by (induction m arbitrary: g) (auto simp add: GaugeSet_def)

lemma Collect_metrics_same:
  "distinct (map fst m) \<Longrightarrow>
   GeneralCollector_Collect_metrics T m g [T, metric] =
     (case map_of m metric of None \<Rightarrow> g [T, metric] | Some v \<Rightarrow> Some v)"
proof (induction m arbitrary: g)
  case Nil
  then show ?case by simp
next
  case (Cons kv m)
  obtain k v where kv: "kv = (k, v)" by (cases kv)
  from Cons.prems kv have d: "distinct (map fst m)" and k: "k \<notin> fst ` set m" by auto
  from k have none: "map_of m k = None" by (simp add: map_of_eq_None_iff)
  have "GeneralCollector_Collect_metrics T (kv # m) g [T, metric] =
      GeneralCollector_Collect_metrics T m (GaugeSet [T, k] v g) [T, metric]"
    by (simp add: kv)
  also have "\<dots> = (case map_of m metric of
                      None \<Rightarrow> GaugeSet [T, k] v g [T, metric] | Some v \<Rightarrow> Some v)"
    by (rule Cons.IH [OF d])
  also have "\<dots> = (case map_of (kv # m) metric of None \<Rightarrow> g [T, metric] | Some v \<Rightarrow> Some v)"
    using none by (auto simp add: kv GaugeSet_def split: option.splits)
  finally show ?case .
qed

lemma Collect_tenants_other:
  "T \<notin> fst ` set al \<Longrightarrow> GeneralCollector_Collect_tenants al g [T, metric] = g [T, metric]"
  by (induction al arbitrary: g) (auto simp add: Collect_metrics_other)

lemma Collect_tenants_same:
  "distinct (map fst al) \<Longrightarrow> map_of al T = Some m \<Longrightarrow> distinct (map fst m) \<Longrightarrow>
   GeneralCollector_Collect_tenants al g [T, metric] =
     (case map_of m metric of None \<Rightarrow> g [T, metric] | Some v \<Rightarrow> Some v)"
proof (induction al arbitrary: g)
  case Nil
  then show ?case by simp
next
  case (Cons kv al)
  obtain k m' where kv: "kv = (k, m')" by (cases kv)
  show ?case
  proof (cases "k = T")
    case True
    with Cons.prems kv have "m' = m" and "T \<notin> fst ` set al" by auto
    then show ?thesis
      using kv True Cons.prems(3)
      by (simp add: Collect_tenants_other Collect_metrics_same)
  next
    case False
    with Cons.prems kv have "distinct (map fst al)" and "map_of al T = Some m" by auto
    then show ?thesis
      using kv False Cons.IH [of "GeneralCollector_Collect_metrics k m' g"] Cons.prems(3)
      by (auto simp add: Collect_metrics_other split: option.splits)
  qed
qed


lemma GetGraphClient_hit:
  "graphClients c tenantID = Some cl \<Longrightarrow> GetGraphClient sdk tenantID c w = (Inr cl, c, w)"
  by (simp add: GetGraphClient_def)

lemma GetGraphClient_part004_hit:
  "graphClients c tenantID = Some cl \<Longrightarrow> GetGraphClient_part004 sdk tenantID c w = (Inr cl, c, w)"
  by (simp add: GetGraphClient_part004_def)

lemma GetGraphClient_credential_failure:
  assumes "graphClients c tenantID = None"
    and "NewDefaultAzureCredential sdk
           (if tenantID = '''' then Getenv sdk w ''AZURE_TENANT_ID'' else tenantID) w = (Inl e, w1)"
  shows "GetGraphClient sdk tenantID c w = (Inl (''failed to create credential: '' @ e), c, w1)"
  using assms
  by (simp add: GetGraphClient_def GetGraphClient_locked_def Let_def credOptions_TenantID
      del: if_not_P split del: if_split)

lemma GetGraphClient_token_failure:
  assumes "graphClients c tenantID = None"
    and "NewDefaultAzureCredential sdk
           (if tenantID = '''' then Getenv sdk w ''AZURE_TENANT_ID'' else tenantID) w = (Inr cred, w1)"
    and "GetToken sdk cred [''https://graph.microsoft.com/.default''] w1 = (Inl e, w2)"
  shows "GetGraphClient sdk tenantID c w = (Inl (''failed to validate credential: '' @ e), c, w2)"
  using assms
  by (simp add: GetGraphClient_def GetGraphClient_locked_def Let_def credOptions_TenantID
      del: if_not_P split del: if_split)

lemma GetGraphClient_success:
  assumes "graphClients c tenantID = None"
    and "NewDefaultAzureCredential sdk
           (if tenantID = '''' then Getenv sdk w ''AZURE_TENANT_ID'' else tenantID) w = (Inr cred, w1)"
    and "GetToken sdk cred [''https://graph.microsoft.com/.default''] w1 = (Inr u, w2)"
    and "NewAzureIdentityAuthenticationProvider sdk cred w2 = (Inr p, w3)"
    and "NewGraphRequestAdapter sdk p w3 = (Inr a, w4)"
    and "NewGraphServiceClient sdk a w4 = (cl, w5)"
  shows "GetGraphClient sdk tenantID c w =
           (Inr cl,
            c\<lparr>graphClients := (graphClients c)
                ((if tenantID = '''' then Getenv sdk w ''AZURE_TENANT_ID'' else tenantID) \<mapsto> cl)\<rparr>,
            w5)"
  using assms
  by (simp add: GetGraphClient_def GetGraphClient_locked_def Let_def credOptions_TenantID
      del: if_not_P split del: if_split)

lemma GetGraphClient_part004_credential_failure:
  assumes "graphClients c tenantID = None"
    and "NewDefaultAzureCredential sdk tenantID w = (Inl e, w1)"
  shows "GetGraphClient_part004 sdk tenantID c w =
           (Inl (''failed to create credential: '' @ e), c, w1)"
  using assms by (simp add: GetGraphClient_part004_def GetGraphClient_locked_part004_def)


lemma GetGraphClient_idempotent:
  assumes "GetGraphClient sdk T c w = (Inr cl, c1, w1)"
    and "T \<noteq> '''' \<or> Getenv sdk w ''AZURE_TENANT_ID'' = ''''"
  shows "GetGraphClient sdk T c1 w2 = (Inr cl, c1, w2)"
proof (cases "graphClients c T")
  case (Some cl')
  with assms(1) show ?thesis
    by (simp add: GetGraphClient_def)
next
  case None
  from assms(2) have key: "(if T = '''' then Getenv sdk w ''AZURE_TENANT_ID'' else T) = T"
    by auto
  from assms(1) None have "graphClients c1 T = Some cl"
    by (auto simp add: GetGraphClient_def GetGraphClient_locked_def Let_def key
        credOptions_TenantID split: prod.splits sum.splits simp del: if_not_P split del: if_split)
  then show ?thesis
    by (rule GetGraphClient_hit)
qed

lemma GetGraphClient_part004_idempotent:
  assumes "GetGraphClient_part004 sdk T c w = (Inr cl, c1, w1)"
  shows "GetGraphClient_part004 sdk T c1 w2 = (Inr cl, c1, w2)"
proof -
  from assms have "graphClients c1 T = Some cl"
    by (auto simp add: GetGraphClient_part004_def GetGraphClient_locked_part004_def Let_def
        split: option.splits prod.splits sum.splits)
  then show ?thesis
    by (rule GetGraphClient_part004_hit)
qed

lemma StartCacheInvalidator_part004_panic:
  "collect s = Some (Some r, s') \<Longrightarrow> StartCacheInvalidator_part004 (Suc n) collect st s = [Crashed r]"
  by simp

lemma StartCacheInvalidator_length:
  "\<forall>s. collect s \<noteq> None \<Longrightarrow> length (StartCacheInvalidator n collect st s) = 2 * n"
  by (induction n arbitrary: s) (auto split: option.splits prod.splits)

lemma StartCacheInvalidator_cycle:
  "\<forall>s. collect s \<noteq> None \<Longrightarrow> i < n \<Longrightarrow>
   (StartCacheInvalidator n collect st s ! (2 * i) = Completed \<or>
    (\<exists>r. StartCacheInvalidator n collect st s ! (2 * i) = Recovered r)) \<and>
   (\<exists>s'. StartCacheInvalidator n collect st s ! (2 * i + 1) = Slept (st s'))"
proof (induction n arbitrary: s i)
  case 0
  then show ?case by simp
next
  case (Suc n)
  from Suc.prems(1) obtain r s' where c: "collect s = Some (r, s')"
    by (metis option.exhaust surj_pair)
  show ?case
  proof (cases i)
    case 0
    with c show ?thesis by (auto split: option.splits)
  next
    case (Suc j)
    with Suc.prems(2) have "j < n" by simp
    from Suc.IH [OF Suc.prems(1) this, of s'] c Suc show ?thesis
      by (auto split: option.splits)
  qed
qed

lemma user_info_labels_present:
  assumes "user_Id u = Some uid" "user_UserPrincipalName u = Some upn" "user_DisplayName u = Some dn"
  shows "user_info_labels T u =
           Inr [T, uid, upn, dn,
                (case user_AccountEnabled u of Some True \<Rightarrow> ''true'' | _ \<Rightarrow> ''false''),
                (case user_UserType u of None \<Rightarrow> ''unknown'' | Some t \<Rightarrow> t),
                (case user_CreationType u of None \<Rightarrow> ''unknown'' | Some t \<Rightarrow> t)]"
  using assms by (simp add: user_info_labels_def)


subsection \<open>One tenant's pass of the users and the devices collector\<close>

lemma UsersCollector_client_error:
  assumes "Now sdk w = (start, w0)"
    and "GetGraphClient sdk T c w0 = (Inl err, c1, w1)"
  shows "UsersCollector_collect_tenant sdk T c w =
           Some (None, c\<lparr>scrapeErrors := CounterInc [T] (scrapeErrors c)\<rparr>, w1)"
  using assms GetGraphClient_error_frame [OF assms(2)]
  by (simp add: UsersCollector_collect_tenant_def)

lemma UsersCollector_first_page_error:
  assumes "Now sdk w = (start, w0)"
    and "GetGraphClient sdk T c w0 = (Inr client, c1, w1)"
    and "UsersGet sdk client (Some users_reqConfig) w1 = (Inl err, w2)"
  shows "UsersCollector_collect_tenant sdk T c w =
           Some (None, c1\<lparr>scrapeErrors := CounterInc [T] (scrapeErrors c1)\<rparr>, w2)"
  using assms by (simp add: UsersCollector_collect_tenant_def)

lemma UsersCollector_paginated:
  assumes "Now sdk w = (start, w0)"
    and "GetGraphClient sdk T c w0 = (Inr client, c1, w1)"
    and "UsersGet sdk client (Some users_reqConfig) w1 = (Inr (Some first), w2)"
    and "pagination_loop (UsersGet sdk client) T first (append_value [] first) c1 w2 =
           Some (None, list, c2, w3)"
  shows "UsersCollector_collect_tenant sdk T c w =
           Some (None, update_scrape_metrics sdk T start
                         (c2\<lparr>usersList := AList.update T list (usersList c2)\<rparr>) w3)"
  using assms by (simp add: UsersCollector_collect_tenant_def split: prod.splits)

lemma UsersCollector_later_page_error:
  assumes now: "Now sdk w = (start, w0)"
    and client: "GetGraphClient sdk T c w0 = (Inr client, c1, w1)"
    and resp: "responses (UsersGet sdk client)
                 (Some users_reqConfig # replicate (Suc (length pages)) None) w1 =
               (map (\<lambda>p. Inr (Some p)) (first # pages) @ [Inl err], w3)"
    and links: "\<forall>p \<in> set (first # pages). has_next_link p"
  shows "UsersCollector_collect_tenant sdk T c w =
           Some (None, update_scrape_metrics sdk T start
                   (c1\<lparr>scrapeErrors := CounterInc [T] (scrapeErrors c1),
                       usersList := AList.update T (entities (first # pages)) (usersList c1)\<rparr>) w3)"
proof -
  from responses_pages_then [OF resp] obtain w2 w2'
    where first: "UsersGet sdk client (Some users_reqConfig) w1 = (Inr (Some first), w2)"
      and pages: "responses (UsersGet sdk client) (replicate (length pages) None) w2 =
                    (map (\<lambda>p. Inr (Some p)) pages, w2')"
      and err: "UsersGet sdk client None w2' = (Inl err, w3)"
    by blast
  from UsersCollector_paginated [OF now client first
      pagination_loop_error_after [OF pages err links]]
  show ?thesis by simp
qed

lemma UsersCollector_complete:
  assumes now: "Now sdk w = (start, w0)"
    and client: "GetGraphClient sdk T c w0 = (Inr client, c1, w1)"
    and resp: "responses (UsersGet sdk client)
                 (Some users_reqConfig # replicate (length pages) None) w1 =
               (map (\<lambda>p. Inr (Some p)) (first # pages), w3)"
    and links: "\<forall>p \<in> set (butlast (first # pages)). has_next_link p"
    and final: "\<not> has_next_link (last (first # pages))"
  shows "UsersCollector_collect_tenant sdk T c w =
           Some (None, update_scrape_metrics sdk T start
                   (c1\<lparr>usersList := AList.update T (entities (first # pages)) (usersList c1)\<rparr>) w3)"
proof -
  from responses_pages [OF resp] obtain w2
    where first: "UsersGet sdk client (Some users_reqConfig) w1 = (Inr (Some first), w2)"
      and pages: "responses (UsersGet sdk client) (replicate (length pages) None) w2 =
                    (map (\<lambda>p. Inr (Some p)) pages, w3)"
    by blast
  from UsersCollector_paginated [OF now client first
      pagination_loop_complete [OF pages links final]]
  show ?thesis by simp
qed

lemma DevicesCollector_client_error:
  assumes "Now sdk w = (start, w0)"
    and "GetGraphClient_part004 sdk T c w0 = (Inl err, c1, w1)"
  shows "DevicesCollector_collect_tenant sdk T c w =
           Some (None, c\<lparr>scrapeErrors := CounterInc [T] (scrapeErrors c)\<rparr>, w1)"
  using assms GetGraphClient_part004_error_frame [OF assms(2)]
  by (simp add: DevicesCollector_collect_tenant_def)

lemma DevicesCollector_first_page_error:
  assumes "Now sdk w = (start, w0)"
    and "GetGraphClient_part004 sdk T c w0 = (Inr client, c1, w1)"
    and "DevicesGet sdk client (Some devices_reqConfig) w1 = (Inl err, w2)"
  shows "DevicesCollector_collect_tenant sdk T c w =
           Some (None, c1\<lparr>scrapeErrors := CounterInc [T] (scrapeErrors c1)\<rparr>, w2)"
  using assms by (simp add: DevicesCollector_collect_tenant_def)

lemma DevicesCollector_paginated:
  assumes "Now sdk w = (start, w0)"
    and "GetGraphClient_part004 sdk T c w0 = (Inr client, c1, w1)"
    and "DevicesGet sdk client (Some devices_reqConfig) w1 = (Inr (Some first), w2)"
    and "pagination_loop (DevicesGet sdk client) T first (append_value [] first) c1 w2 =
           Some (None, list, c2, w3)"
  shows "DevicesCollector_collect_tenant sdk T c w =
           Some (None, update_scrape_metrics sdk T start
                         (c2\<lparr>devicesList := AList.update T list (devicesList c2)\<rparr>) w3)"
  using assms by (simp add: DevicesCollector_collect_tenant_def split: prod.splits)

lemma DevicesCollector_later_page_error:
  assumes now: "Now sdk w = (start, w0)"
    and client: "GetGraphClient_part004 sdk T c w0 = (Inr client, c1, w1)"
    and resp: "responses (DevicesGet sdk client)
                 (Some devices_reqConfig # replicate (Suc (length pages)) None) w1 =
               (map (\<lambda>p. Inr (Some p)) (first # pages) @ [Inl err], w3)"
    and links: "\<forall>p \<in> set (first # pages). has_next_link p"
  shows "DevicesCollector_collect_tenant sdk T c w =
           Some (None, update_scrape_metrics sdk T start
                   (c1\<lparr>scrapeErrors := CounterInc [T] (scrapeErrors c1),
                       devicesList := AList.update T (entities (first # pages)) (devicesList c1)\<rparr>) w3)"
proof -
  from responses_pages_then [OF resp] obtain w2 w2'
    where first: "DevicesGet sdk client (Some devices_reqConfig) w1 = (Inr (Some first), w2)"
      and pages: "responses (DevicesGet sdk client) (replicate (length pages) None) w2 =
                    (map (\<lambda>p. Inr (Some p)) pages, w2')"
      and err: "DevicesGet sdk client None w2' = (Inl err, w3)"
    by blast
  from DevicesCollector_paginated [OF now client first
      pagination_loop_error_after [OF pages err links]]
  show ?thesis by simp
qed

lemma DevicesCollector_complete:
  assumes now: "Now sdk w = (start, w0)"
    and client: "GetGraphClient_part004 sdk T c w0 = (Inr client, c1, w1)"
    and resp: "responses (DevicesGet sdk client)
                 (Some devices_reqConfig # replicate (length pages) None) w1 =
               (map (\<lambda>p. Inr (Some p)) (first # pages), w3)"
    and links: "\<forall>p \<in> set (butlast (first # pages)). has_next_link p"
    and final: "\<not> has_next_link (last (first # pages))"
  shows "DevicesCollector_collect_tenant sdk T c w =
           Some (None, update_scrape_metrics sdk T start
                   (c1\<lparr>devicesList := AList.update T (entities (first # pages)) (devicesList c1)\<rparr>) w3)"
proof -
  from responses_pages [OF resp] obtain w2
    where first: "DevicesGet sdk client (Some devices_reqConfig) w1 = (Inr (Some first), w2)"
      and pages: "responses (DevicesGet sdk client) (replicate (length pages) None) w2 =
                    (map (\<lambda>p. Inr (Some p)) pages, w3)"
    by blast
  from DevicesCollector_paginated [OF now client first
      pagination_loop_complete [OF pages links final]]
  show ?thesis by simp
qed

subsection \<open>The totals a scrape exposes\<close>

lemma UsersCollector_Collect_tenants_other:
  "UsersCollector_Collect_tenants al tot info = (r, tot', info') \<Longrightarrow> T \<notin> fst ` set al \<Longrightarrow>
   tot' [T] = tot [T]"
proof (induction al arbitrary: tot info)
  case Nil
  then show ?case by simp
next
  case (Cons kv al)
  obtain k us where kv: "kv = (k, us)" by (cases kv)
  with Cons.prems(2) have k: "k \<noteq> T" and T: "T \<notin> fst ` set al" by auto
  show ?case
  proof (cases "UsersCollector_Collect_users k us info")
    case (Pair p info1)
    show ?thesis
    proof (cases p)
      case None
      with Cons.prems(1) kv Pair
      have "UsersCollector_Collect_tenants al (GaugeSet [k] (real (length us)) tot) info1 =
              (r, tot', info')"
        by (simp add: Let_def)
      from Cons.IH [OF this T] k show ?thesis
        by (simp add: GaugeSet_def)
    next
      case (Some msg)
      with Cons.prems(1) kv Pair k show ?thesis
        by (auto simp add: Let_def GaugeSet_def)
    qed
  qed
qed

lemma UsersCollector_Collect_tenants_total:
  "UsersCollector_Collect_tenants al tot info = (None, tot', info') \<Longrightarrow>
   distinct (map fst al) \<Longrightarrow> map_of al T = Some us \<Longrightarrow> tot' [T] = Some (real (length us))"
proof (induction al arbitrary: tot info)
  case Nil
  then show ?case by simp
next
  case (Cons kv al)
  obtain k us' where kv: "kv = (k, us')" by (cases kv)
  obtain p info1 where users: "UsersCollector_Collect_users k us' info = (p, info1)"
    by (cases "UsersCollector_Collect_users k us' info")
  from Cons.prems(1) kv users have p: "p = None"
    by (cases p) (simp_all add: Let_def)
  with Cons.prems(1) kv users
  have rest: "UsersCollector_Collect_tenants al (GaugeSet [k] (real (length us')) tot) info1 =
                (None, tot', info')"
    by (simp add: Let_def)
  show ?case
  proof (cases "k = T")
    case True
    with Cons.prems(2,3) kv have "us' = us" and "T \<notin> fst ` set al" by auto
    with UsersCollector_Collect_tenants_other [OF rest, of T] True show ?thesis
      by (simp add: GaugeSet_def)
  next
    case False
    with Cons.prems(2,3) kv have "distinct (map fst al)" and "map_of al T = Some us" by auto
    with Cons.IH [OF rest] show ?thesis by simp
  qed
qed

lemma DevicesCollector_Collect_tenants_other:
  "DevicesCollector_Collect_tenants f al tot info = (r, tot', info') \<Longrightarrow> T \<notin> fst ` set al \<Longrightarrow>
   tot' [T] = tot [T]"
proof (induction al arbitrary: tot info)
  case Nil
  then show ?case by simp
next
  case (Cons kv al)
  obtain k ds where kv: "kv = (k, ds)" by (cases kv)
  with Cons.prems(2) have k: "k \<noteq> T" and T: "T \<notin> fst ` set al" by auto
  show ?case
  proof (cases "DevicesCollector_Collect_devices f k ds info")
    case (Pair p info1)
    show ?thesis
    proof (cases p)
      case None
      with Cons.prems(1) kv Pair
      have "DevicesCollector_Collect_tenants f al (GaugeSet [k] (real (length ds)) tot) info1 =
              (r, tot', info')"
        by (simp add: Let_def)
      from Cons.IH [OF this T] k show ?thesis
        by (simp add: GaugeSet_def)
    next
      case (Some msg)
      with Cons.prems(1) kv Pair k show ?thesis
        by (auto simp add: Let_def GaugeSet_def)
    qed
  qed
qed

lemma DevicesCollector_Collect_tenants_total:
  "DevicesCollector_Collect_tenants f al tot info = (None, tot', info') \<Longrightarrow>
   distinct (map fst al) \<Longrightarrow> map_of al T = Some ds \<Longrightarrow> tot' [T] = Some (real (length ds))"
proof (induction al arbitrary: tot info)
  case Nil
  then show ?case by simp
next
  case (Cons kv al)
  obtain k ds' where kv: "kv = (k, ds')" by (cases kv)
  obtain p info1 where devices: "DevicesCollector_Collect_devices f k ds' info = (p, info1)"
    by (cases "DevicesCollector_Collect_devices f k ds' info")
  from Cons.prems(1) kv devices have p: "p = None"
    by (cases p) (simp_all add: Let_def)
  with Cons.prems(1) kv devices
  have rest: "DevicesCollector_Collect_tenants f al (GaugeSet [k] (real (length ds')) tot) info1 =
                (None, tot', info')"
    by (simp add: Let_def)
  show ?case
  proof (cases "k = T")
    case True
    with Cons.prems(2,3) kv have "ds' = ds" and "T \<notin> fst ` set al" by auto
    with DevicesCollector_Collect_tenants_other [OF rest, of T] True show ?thesis
      by (simp add: GaugeSet_def)
  next
    case False
    with Cons.prems(2,3) kv have "distinct (map fst al)" and "map_of al T = Some ds" by auto
    with Cons.IH [OF rest] show ?thesis by simp
  qed
qed

lemma UsersCollector_Collect_total:
  assumes "UsersCollector_Collect c = (None, c')"
    and "distinct (map fst (usersList c))" and "map_of (usersList c) T = Some us"
  shows "usersTotal c' [T] = Some (real (length us))"
proof -
  obtain r tot info where t: "UsersCollector_Collect_tenants (usersList c) (usersTotal c) (usersInfo c) = (r, tot, info)"
    by (cases "UsersCollector_Collect_tenants (usersList c) (usersTotal c) (usersInfo c)")
  with assms(1) have "r = None" and "usersTotal c' = tot"
    by (auto simp add: UsersCollector_Collect_def)
  with UsersCollector_Collect_tenants_total [OF _ assms(2,3)] t show ?thesis
    by simp
qed

lemma DevicesCollector_Collect_total:
  assumes "DevicesCollector_Collect sdk c = (None, c')"
    and "distinct (map fst (devicesList c))" and "map_of (devicesList c) T = Some ds"
  shows "devicesTotal c' [T] = Some (real (length ds))"
proof -
  obtain r tot info where t: "DevicesCollector_Collect_tenants (FormatRFC3339 sdk) (devicesList c)
      (devicesTotal c) (devicesInfo c) = (r, tot, info)"
    by (cases "DevicesCollector_Collect_tenants (FormatRFC3339 sdk) (devicesList c)
      (devicesTotal c) (devicesInfo c)")
  with assms(1) have "r = None" and "devicesTotal c' = tot"
    by (auto simp add: DevicesCollector_Collect_def)
  with DevicesCollector_Collect_tenants_total [OF _ assms(2,3)] t show ?thesis
    by simp
qed

lemma pagination_loop_frame:
  assumes "pagination_loop get T result list c w = Some (p, list', c', w')"
  shows "\<exists>e. c' = c\<lparr>scrapeErrors := e\<rparr>"
proof -
  have "\<exists>e. fst (snd (snd y)) = c\<lparr>scrapeErrors := e\<rparr>"
    if "pagination_loop g t r l c w = Some y" for g t r l c w y
  proof (rule pagination_loop.raw_induct
      [where P = "\<lambda>g t r l c w y. \<exists>e. fst (snd (snd y)) = c\<lparr>scrapeErrors := e\<rparr>", OF _ that])
    fix loop g t r l c w y
    assume IH: "\<And>g t r l c w y. loop g t r l c w = Some y \<Longrightarrow>
                  \<exists>e. fst (snd (snd y)) = c\<lparr>scrapeErrors := e\<rparr>"
      and step: "(if has_next_link r then
                    (case g None w of
                       (Inl err, w') \<Rightarrow>
                         Some (None, l, c\<lparr>scrapeErrors := CounterInc [t] (scrapeErrors c)\<rparr>, w')
                     | (Inr None, w') \<Rightarrow> Some (Some nil_dereference, l, c, w')
                     | (Inr (Some result'), w') \<Rightarrow> loop g t result' (append_value l result') c w')
                  else Some (None, l, c, w)) = Some y"
    show "\<exists>e. fst (snd (snd y)) = c\<lparr>scrapeErrors := e\<rparr>"
    proof (cases "has_next_link r")
      case False
      with step have "y = (None, l, c, w)" by simp
      then show ?thesis by (intro exI [of _ "scrapeErrors c"]) simp
    next
      case True
      obtain x w' where g: "g None w = (x, w')" by (cases "g None w")
      show ?thesis
      proof (cases x)
        case (Inl err)
        with step True g show ?thesis by auto
      next
        case (Inr page)
        show ?thesis
        proof (cases page)
          case None
          with step True g Inr have "y = (Some nil_dereference, l, c, w')" by simp
          then show ?thesis by (intro exI [of _ "scrapeErrors c"]) simp
        next
          case (Some result')
          with step True g Inr have "loop g t result' (append_value l result') c w' = Some y"
            by simp
          then show ?thesis by (rule IH)
        qed
      qed
    qed
  qed
  from this [OF assms] show ?thesis by simp
qed

subsection \<open>Unfolding the stand-ins\<close>

lemmas fixture_defs =
  quiet_sdk_def second_page_fails_sdk_def two_page_directory_sdk_def ambient_tenant_sdk_def
  no_credential_sdk_def late_token_sdk_def first_page_fails_sdk_def empty_directory_sdk_def
  counts_sdk_def one_tenant_config_def disabled_config_def users_with_snapshot_def
  devices_with_snapshot_def general_with_scrape_def users_with_nameless_def
  linked_page_def last_page_def no_value_page_def count_page_def
  NewUsersCollector_def NewDevicesCollector_def NewGeneralCollector_def NewBaseCollector_def
  BaseCollector.extend_def UsersCollector.fields_def DevicesCollector.fields_def
  GeneralCollector.fields_def

lemmas collect_defs =
  UsersCollector_collect_def UsersCollector_collect_tenant_def GetTenants_def
  DevicesCollector_collect_def DevicesCollector_collect_tenant_def GetTenants_part004_def
  GetGraphClient_def GetGraphClient_locked_def GetGraphClient_part004_def
  GetGraphClient_locked_part004_def update_scrape_metrics_def has_next_link_def append_value_def
  Let_def


subsection \<open>A failed later page\<close>

text \<open>
  Claim C1, as the code has it. When the fetch of a page after the first fails
  in a tenant's pass of the users or the devices collector (the first page and
  the pages before the failed one were fetched, each with a next link), the
  pass makes no further request, the tenant's error counter grows by one, and
  the tenant's cache entry is replaced by the entities of the pages fetched
  before the failure, in order.
\<close>

theorem later_page_error_stores_fetched_pages:
  "(Now sdk w = (start, w0) \<and>
    GetGraphClient sdk T cu w0 = (Inr client, cu1, w1) \<and>
    responses (UsersGet sdk client) (Some users_reqConfig # replicate (Suc (length pages)) None) w1 =
      (map (\<lambda>p. Inr (Some p)) (first # pages) @ [Inl err], w3) \<and>
    (\<forall>p \<in> set (first # pages). has_next_link p) \<longrightarrow>
    (\<exists>c' w'. UsersCollector_collect_tenant sdk T cu w = Some (None, c', w') \<and>
       map_of (usersList c') T = Some (entities (first # pages)) \<and>
       counter_value (scrapeErrors c') [T] = counter_value (scrapeErrors cu) [T] + 1 \<and>
       w' = snd (Now sdk (snd (Now sdk w3))))) \<and>
   (Now sdk v = (dstart, v0) \<and>
    GetGraphClient_part004 sdk T cd v0 = (Inr dclient, cd1, v1) \<and>
    responses (DevicesGet sdk dclient)
      (Some devices_reqConfig # replicate (Suc (length dpages)) None) v1 =
      (map (\<lambda>p. Inr (Some p)) (dfirst # dpages) @ [Inl derr], v3) \<and>
    (\<forall>p \<in> set (dfirst # dpages). has_next_link p) \<longrightarrow>
    (\<exists>c' v'. DevicesCollector_collect_tenant sdk T cd v = Some (None, c', v') \<and>
       map_of (devicesList c') T = Some (entities (dfirst # dpages)) \<and>
       counter_value (scrapeErrors c') [T] = counter_value (scrapeErrors cd) [T] + 1 \<and>
       v' = snd (Now sdk (snd (Now sdk v3)))))"
proof (intro conjI impI)
  assume "Now sdk w = (start, w0) \<and>
    GetGraphClient sdk T cu w0 = (Inr client, cu1, w1) \<and>
    responses (UsersGet sdk client) (Some users_reqConfig # replicate (Suc (length pages)) None) w1 =
      (map (\<lambda>p. Inr (Some p)) (first # pages) @ [Inl err], w3) \<and>
    (\<forall>p \<in> set (first # pages). has_next_link p)"
  then have now: "Now sdk w = (start, w0)"
    and client: "GetGraphClient sdk T cu w0 = (Inr client, cu1, w1)"
    and resp: "responses (UsersGet sdk client)
                 (Some users_reqConfig # replicate (Suc (length pages)) None) w1 =
               (map (\<lambda>p. Inr (Some p)) (first # pages) @ [Inl err], w3)"
    and links: "\<forall>p \<in> set (first # pages). has_next_link p"
    by simp_all
  have cu1: "cu1 = cu\<lparr>graphClients := graphClients cu1\<rparr>"
    using client by (rule GetGraphClient_frame)
  have errors: "scrapeErrors cu1 = scrapeErrors cu"
    by (subst cu1) simp
  show "\<exists>c' w'. UsersCollector_collect_tenant sdk T cu w = Some (None, c', w') \<and>
       map_of (usersList c') T = Some (entities (first # pages)) \<and>
       counter_value (scrapeErrors c') [T] = counter_value (scrapeErrors cu) [T] + 1 \<and>
       w' = snd (Now sdk (snd (Now sdk w3)))"
    unfolding UsersCollector_later_page_error [OF now client resp links] update_scrape_metrics_eq
    by (simp add: update_conv' errors)
next
  assume "Now sdk v = (dstart, v0) \<and>
    GetGraphClient_part004 sdk T cd v0 = (Inr dclient, cd1, v1) \<and>
    responses (DevicesGet sdk dclient)
      (Some devices_reqConfig # replicate (Suc (length dpages)) None) v1 =
      (map (\<lambda>p. Inr (Some p)) (dfirst # dpages) @ [Inl derr], v3) \<and>
    (\<forall>p \<in> set (dfirst # dpages). has_next_link p)"
  then have now: "Now sdk v = (dstart, v0)"
    and client: "GetGraphClient_part004 sdk T cd v0 = (Inr dclient, cd1, v1)"
    and resp: "responses (DevicesGet sdk dclient)
                 (Some devices_reqConfig # replicate (Suc (length dpages)) None) v1 =
               (map (\<lambda>p. Inr (Some p)) (dfirst # dpages) @ [Inl derr], v3)"
    and links: "\<forall>p \<in> set (dfirst # dpages). has_next_link p"
    by simp_all
  have cd1: "cd1 = cd\<lparr>graphClients := graphClients cd1\<rparr>"
    using client by (rule GetGraphClient_part004_frame)
  have errors: "scrapeErrors cd1 = scrapeErrors cd"
    by (subst cd1) simp
  show "\<exists>c' v'. DevicesCollector_collect_tenant sdk T cd v = Some (None, c', v') \<and>
       map_of (devicesList c') T = Some (entities (dfirst # dpages)) \<and>
       counter_value (scrapeErrors c') [T] = counter_value (scrapeErrors cd) [T] + 1 \<and>
       v' = snd (Now sdk (snd (Now sdk v3)))"
    unfolding DevicesCollector_later_page_error [OF now client resp links] update_scrape_metrics_eq
    by (simp add: update_conv' errors)
qed


theorem later_page_error_stores_fetched_pages_witness:
  "responses (UsersGet second_page_fails_sdk (GraphServiceClient 5)) [Some users_reqConfig, None] 6 =
     ([Inr (Some (linked_page [alice])), Inl ''429 Too Many Requests''], 8) \<and>
   has_next_link (linked_page [alice]) \<and>
   (\<exists>c' w'. UsersCollector_collect_tenant second_page_fails_sdk ''t1'' users_with_snapshot 0 =
               Some (None, c', w') \<and>
      map_of (usersList c') ''t1'' = Some [alice] \<and>
      counter_value (scrapeErrors c') [''t1''] = 1 \<and> w' = 10) \<and>
   responses (DevicesGet second_page_fails_sdk (GraphServiceClient 4)) [Some devices_reqConfig, None] 5 =
     ([Inr (Some (linked_page [laptop])), Inl ''429 Too Many Requests''], 7) \<and>
   has_next_link (linked_page [laptop]) \<and>
   (\<exists>c' w'. DevicesCollector_collect_tenant second_page_fails_sdk ''t1'' devices_with_snapshot 0 =
               Some (None, c', w') \<and>
      map_of (devicesList c') ''t1'' = Some [laptop] \<and>
      counter_value (scrapeErrors c') [''t1''] = 1 \<and> w' = 9)"
proof -
  define cu1 where
    "cu1 = fst (snd (GetGraphClient second_page_fails_sdk ''t1'' users_with_snapshot 1))"
  define cd1 where
    "cd1 = fst (snd (GetGraphClient_part004 second_page_fails_sdk ''t1'' devices_with_snapshot 1))"
  have now: "Now second_page_fails_sdk 0 = (0, 1)"
    by (simp add: fixture_defs)
  have uclient: "GetGraphClient second_page_fails_sdk ''t1'' users_with_snapshot 1 =
      (Inr (GraphServiceClient 5), cu1, 6)"
    by (simp add: cu1_def collect_defs fixture_defs)
  have dclient: "GetGraphClient_part004 second_page_fails_sdk ''t1'' devices_with_snapshot 1 =
      (Inr (GraphServiceClient 4), cd1, 5)"
    by (simp add: cd1_def collect_defs fixture_defs)
  have uresp: "responses (UsersGet second_page_fails_sdk (GraphServiceClient 5))
      (Some users_reqConfig # replicate (Suc (length [])) None) 6 =
      (map (\<lambda>p. Inr (Some p)) (linked_page [alice] # []) @ [Inl ''429 Too Many Requests''], 8)"
    by (simp add: fixture_defs)
  have dresp: "responses (DevicesGet second_page_fails_sdk (GraphServiceClient 4))
      (Some devices_reqConfig # replicate (Suc (length [])) None) 5 =
      (map (\<lambda>p. Inr (Some p)) (linked_page [laptop] # []) @ [Inl ''429 Too Many Requests''], 7)"
    by (simp add: fixture_defs)
  have ulink: "\<forall>p \<in> set (linked_page [alice] # []). has_next_link p"
    and dlink: "\<forall>p \<in> set (linked_page [laptop] # []). has_next_link p"
    by (simp_all add: has_next_link_def linked_page_def)
  have zero: "counter_value (scrapeErrors users_with_snapshot) [''t1''] = 0"
    "counter_value (scrapeErrors devices_with_snapshot) [''t1''] = 0"
    by (simp_all add: counter_value_def fixture_defs)
  have clock: "snd (Now second_page_fails_sdk (snd (Now second_page_fails_sdk 8))) = 10"
    "snd (Now second_page_fails_sdk (snd (Now second_page_fails_sdk 7))) = 9"
    by (simp_all add: fixture_defs)
  have vals: "append_value [] (linked_page [alice]) = [alice]"
    "append_value [] (linked_page [laptop]) = [laptop]"
    by (simp_all add: append_value_def linked_page_def)
  note inst = later_page_error_stores_fetched_pages
    [where sdk = second_page_fails_sdk and T = "''t1''" and w = 0 and start = 0 and ?w0.0 = 1
      and cu = users_with_snapshot and client = "GraphServiceClient 5" and ?cu1.0 = cu1
      and ?w1.0 = 6 and pages = "[]" and first = "linked_page [alice]"
      and err = "''429 Too Many Requests''" and ?w3.0 = 8
      and v = 0 and dstart = 0 and ?v0.0 = 1
      and cd = devices_with_snapshot and dclient = "GraphServiceClient 4" and ?cd1.0 = cd1
      and ?v1.0 = 5 and dpages = "[]" and dfirst = "linked_page [laptop]"
      and derr = "''429 Too Many Requests''" and ?v3.0 = 7]
  from inst [THEN conjunct1, rule_format, OF conjI [OF now conjI [OF uclient conjI [OF uresp ulink]]]]
    inst [THEN conjunct2, rule_format, OF conjI [OF now conjI [OF dclient conjI [OF dresp dlink]]]]
    uresp dresp ulink dlink
  show ?thesis
    by (simp add: zero clock vals)
qed

text \<open>
  The claim as the specification states it fails: the tenant's snapshot of two
  users is replaced by the one user of the first page when the second request
  fails.
\<close>

theorem later_page_error_overwrites_snapshot:
  "map_of (usersList users_with_snapshot) ''t1'' = Some [alice, bob] \<and>
   fst (responses (UsersGet second_page_fails_sdk (GraphServiceClient 5))
          [Some users_reqConfig, None] 6) =
     [Inr (Some (linked_page [alice])), Inl ''429 Too Many Requests''] \<and>
   (\<exists>c' w'. UsersCollector_collect second_page_fails_sdk users_with_snapshot 0 =
               Some (None, c', w') \<and>
      map_of (usersList c') ''t1'' = Some [alice]) \<and>
   [alice] \<noteq> [alice, bob]"
  by (simp add: collect_defs fixture_defs pagination_loop.simps)

subsection \<open>Following the next link\<close>

text \<open>
  Claim C2 does not hold of the code. The loop tests the next link of the last
  page and then calls \<^verbatim>\<open>Get\<close> on the same request builder with a \<^verbatim>\<open>nil\<close>
  configuration: the link is never passed on, so the request goes to the
  collection again. Against a directory of two pages, whose first page is the
  answer to every request to the collection, the cycle of the users collector
  and that of the devices collector never return, and nothing is stored.
\<close>

theorem pagination_requests_the_collection_again:
  "UsersGet two_page_directory_sdk (GraphServiceClient 5) None 7 =
     (Inr (Some (linked_page [alice])), 8) \<and>
   UsersCollector_collect two_page_directory_sdk users_with_snapshot 0 = None \<and>
   DevicesGet two_page_directory_sdk (GraphServiceClient 4) None 6 =
     (Inr (Some (linked_page [laptop])), 7) \<and>
   DevicesCollector_collect two_page_directory_sdk devices_with_snapshot 0 = None"
proof -
  let ?sdk = two_page_directory_sdk
  have link: "has_next_link (linked_page xs)" for xs :: "'e list"
    by (simp add: has_next_link_def linked_page_def)
  have "\<exists>p w'. UsersGet ?sdk cl None w = (Inr (Some p), w') \<and> has_next_link p" for cl w
    by (simp add: fixture_defs has_next_link_def)
  then have users: "pagination_loop (UsersGet ?sdk cl) T (linked_page [alice]) list c w = None"
    for cl T list and c :: UsersCollector and w
    by (intro pagination_loop_diverges link) simp
  have "\<exists>p w'. DevicesGet ?sdk cl None w = (Inr (Some p), w') \<and> has_next_link p" for cl w
    by (simp add: fixture_defs has_next_link_def)
  then have devices: "pagination_loop (DevicesGet ?sdk cl) T (linked_page [laptop]) list c w = None"
    for cl T list and c :: DevicesCollector and w
    by (intro pagination_loop_diverges link) simp
  define cu1 where "cu1 = fst (snd (GetGraphClient ?sdk ''t1'' users_with_snapshot 1))"
  define cd1 where "cd1 = fst (snd (GetGraphClient_part004 ?sdk ''t1'' devices_with_snapshot 1))"
  have now: "Now ?sdk 0 = (0, 1)"
    by (simp add: fixture_defs)
  have uclient: "GetGraphClient ?sdk ''t1'' users_with_snapshot 1 =
      (Inr (GraphServiceClient 5), cu1, 6)"
    by (simp add: cu1_def collect_defs fixture_defs)
  have dclient: "GetGraphClient_part004 ?sdk ''t1'' devices_with_snapshot 1 =
      (Inr (GraphServiceClient 4), cd1, 5)"
    by (simp add: cd1_def collect_defs fixture_defs)
  have ufirst: "UsersGet ?sdk (GraphServiceClient 5) (Some users_reqConfig) 6 =
      (Inr (Some (linked_page [alice])), 7)"
    and dfirst: "DevicesGet ?sdk (GraphServiceClient 4) (Some devices_reqConfig) 5 =
      (Inr (Some (linked_page [laptop])), 6)"
    by (simp_all add: two_page_directory_sdk_def quiet_sdk_def)
  have tenants: "GetTenants ?sdk users_with_snapshot 0 = [''t1'']"
    "GetTenants_part004 devices_with_snapshot = [''t1'']"
    by (simp_all add: GetTenants_def GetTenants_part004_def fixture_defs)
  have "UsersCollector_collect_tenant ?sdk ''t1'' users_with_snapshot 0 = None"
    by (simp add: UsersCollector_collect_tenant_def now uclient ufirst users del: One_nat_def)
  then have u: "UsersCollector_collect ?sdk users_with_snapshot 0 = None"
    by (simp add: UsersCollector_collect_def tenants)
  have "DevicesCollector_collect_tenant ?sdk ''t1'' devices_with_snapshot 0 = None"
    by (simp add: DevicesCollector_collect_tenant_def now dclient dfirst devices del: One_nat_def)
  then have d: "DevicesCollector_collect ?sdk devices_with_snapshot 0 = None"
    by (simp add: DevicesCollector_collect_def tenants)
  show ?thesis
    using u d by (simp add: two_page_directory_sdk_def quiet_sdk_def)
qed

subsection \<open>A panic inside a cycle\<close>

text \<open>
  Claim C3 does not hold of the older \<^verbatim>\<open>StartCacheInvalidator\<close>, which calls
  \<^verbatim>\<open>collect\<close> with no \<^verbatim>\<open>recover\<close>. A cycle of the devices collector panics when
  \<^verbatim>\<open>Get\<close> returns a \<^verbatim>\<open>nil\<close> page and no error; the older loop then ends with the
  first cycle, where the loop of \<^verbatim>\<open>collector/users.go\<close> recovers, sleeps the
  scrape interval and runs the next cycle.
\<close>

theorem unrecovered_panic_ends_older_loop:
  "(\<exists>c' w'. DevicesCollector_collect quiet_sdk (NewDevicesCollector one_tenant_config) 0 =
      Some (Some nil_dereference, c', w')) \<and>
   StartCacheInvalidator_part004 3 (\<lambda>(c, w). DevicesCollector_collect quiet_sdk c w)
     (\<lambda>(c, w). scrapeTime c) (NewDevicesCollector one_tenant_config, 0) =
     [Crashed nil_dereference] \<and>
   StartCacheInvalidator 3 (\<lambda>(c, w). DevicesCollector_collect quiet_sdk c w)
     (\<lambda>(c, w). scrapeTime c) (NewDevicesCollector one_tenant_config, 0) =
     [Recovered nil_dereference, Slept 30000000000,
      Recovered nil_dereference, Slept 30000000000,
      Recovered nil_dereference, Slept 30000000000]"
  by (simp add: numeral_3_eq_3 collect_defs fixture_defs)

text \<open>
  The loop of \<^verbatim>\<open>collector/users.go\<close> does what the claim says: as long as
  \<^verbatim>\<open>collect\<close> returns, normally or by a panic, every one of the first \<open>n\<close>
  cycles is run, and each is followed by a sleep of the scrape interval.
\<close>

theorem recovered_panic_does_not_end_loop:
  assumes "\<forall>s. collect s \<noteq> None"
  shows "length (StartCacheInvalidator n collect st s) = 2 * n \<and>
         (\<forall>i < n.
            (StartCacheInvalidator n collect st s ! (2 * i) = Completed \<or>
             (\<exists>r. StartCacheInvalidator n collect st s ! (2 * i) = Recovered r)) \<and>
            (\<exists>s'. StartCacheInvalidator n collect st s ! (2 * i + 1) = Slept (st s')))"
  using assms StartCacheInvalidator_length [of collect n st s]
    StartCacheInvalidator_cycle [of collect _ n st s]
  by blast

theorem recovered_panic_does_not_end_loop_witness:
  "(\<forall>s. (\<lambda>k. Some (if even k then Some ''boom'' else None, Suc k)) s \<noteq> None) \<and>
   StartCacheInvalidator 2 (\<lambda>k. Some (if even k then Some ''boom'' else None, Suc k))
     (\<lambda>k. 30000000000) (0::nat) =
     [Recovered ''boom'', Slept 30000000000, Completed, Slept 30000000000] \<and>
   length (StartCacheInvalidator 2 (\<lambda>k. Some (if even k then Some ''boom'' else None, Suc k))
     (\<lambda>k. 30000000000) (0::nat)) = 4"
  using recovered_panic_does_not_end_loop
    [of "\<lambda>k::nat. Some (if even k then Some ''boom'' else None, Suc k)" 2 "\<lambda>k. 30000000000" 0]
  by (simp add: numeral_2_eq_2)


subsection \<open>The client cache\<close>

text \<open>
  Claim C4 does not hold of the \<^verbatim>\<open>GetGraphClient\<close> of \<^verbatim>\<open>collector/users.go\<close> for
  the empty tenant when \<^verbatim>\<open>AZURE_TENANT_ID\<close> is set: the client is stored under
  the tenant read from the environment, the look-up is by the empty tenant,
  and so the next call for the empty tenant constructs another client.
\<close>

theorem empty_tenant_constructs_a_client_per_call:
  "Getenv ambient_tenant_sdk 0 ''AZURE_TENANT_ID'' = ''contoso'' \<and>
   fst (GetGraphClient ambient_tenant_sdk '''' (NewUsersCollector one_tenant_config) 0) =
     Inr (GraphServiceClient 4) \<and>
   graphClients
     (fst (snd (GetGraphClient ambient_tenant_sdk '''' (NewUsersCollector one_tenant_config) 0)))
     '''' = None \<and>
   graphClients
     (fst (snd (GetGraphClient ambient_tenant_sdk '''' (NewUsersCollector one_tenant_config) 0)))
     ''contoso'' = Some (GraphServiceClient 4) \<and>
   snd (snd (GetGraphClient ambient_tenant_sdk '''' (NewUsersCollector one_tenant_config) 0)) = 5 \<and>
   fst (GetGraphClient ambient_tenant_sdk ''''
          (fst (snd (GetGraphClient ambient_tenant_sdk '''' (NewUsersCollector one_tenant_config) 0)))
          5) = Inr (GraphServiceClient 9) \<and>
   snd (snd (GetGraphClient ambient_tenant_sdk ''''
          (fst (snd (GetGraphClient ambient_tenant_sdk '''' (NewUsersCollector one_tenant_config) 0)))
          5)) = 10"
  by (simp add: GetGraphClient_def GetGraphClient_locked_def Let_def fixture_defs)

text \<open>
  For every other call the cache works as the claim says, in sequential use:
  after a call that returned a client, a later call for the same tenant
  returns that client and touches neither the collector nor the world. This
  holds of \<^verbatim>\<open>collector/users.go\<close> when the tenant is not empty or
  \<^verbatim>\<open>AZURE_TENANT_ID\<close> is, and of the older \<^verbatim>\<open>GetGraphClient\<close> always.
\<close>

theorem cached_client_is_returned:
  "(GetGraphClient sdk T c w = (Inr cl, c1, w1) \<and>
    (T \<noteq> '''' \<or> Getenv sdk w ''AZURE_TENANT_ID'' = '''') \<longrightarrow>
    (\<forall>w2. GetGraphClient sdk T c1 w2 = (Inr cl, c1, w2))) \<and>
   (GetGraphClient_part004 sdk T c w = (Inr cl', c2, w3) \<longrightarrow>
    (\<forall>w2. GetGraphClient_part004 sdk T c2 w2 = (Inr cl', c2, w2)))"
  using GetGraphClient_idempotent [of sdk T c w cl c1 w1]
    GetGraphClient_part004_idempotent [of sdk T c w cl' c2 w3]
  by blast


theorem cached_client_is_returned_witness:
  "fst (GetGraphClient quiet_sdk ''t1'' (NewUsersCollector one_tenant_config) 0) =
     Inr (GraphServiceClient 4) \<and>
   GetGraphClient quiet_sdk ''t1''
     (fst (snd (GetGraphClient quiet_sdk ''t1'' (NewUsersCollector one_tenant_config) 0))) 7 =
     (Inr (GraphServiceClient 4),
      fst (snd (GetGraphClient quiet_sdk ''t1'' (NewUsersCollector one_tenant_config) 0)), 7) \<and>
   fst (GetGraphClient_part004 quiet_sdk ''t1'' (NewDevicesCollector one_tenant_config) 0) =
     Inr (GraphServiceClient 3) \<and>
   GetGraphClient_part004 quiet_sdk ''t1''
     (fst (snd (GetGraphClient_part004 quiet_sdk ''t1'' (NewDevicesCollector one_tenant_config) 0)))
     7 =
     (Inr (GraphServiceClient 3),
      fst (snd (GetGraphClient_part004 quiet_sdk ''t1'' (NewDevicesCollector one_tenant_config) 0)),
      7)"
proof -
  define c1 where
    "c1 = fst (snd (GetGraphClient quiet_sdk ''t1'' (NewUsersCollector one_tenant_config) 0))"
  define c2 where
    "c2 = fst (snd (GetGraphClient_part004 quiet_sdk ''t1''
                      (NewDevicesCollector one_tenant_config) 0))"
  have a: "GetGraphClient quiet_sdk ''t1'' (NewUsersCollector one_tenant_config) 0 =
      (Inr (GraphServiceClient 4), c1, 5)"
    by (simp add: c1_def collect_defs fixture_defs)
  have b: "GetGraphClient_part004 quiet_sdk ''t1'' (NewDevicesCollector one_tenant_config) 0 =
      (Inr (GraphServiceClient 3), c2, 4)"
    by (simp add: c2_def collect_defs fixture_defs)
  have t: "''t1'' \<noteq> '''' \<or> Getenv quiet_sdk 0 ''AZURE_TENANT_ID'' = ''''"
    by simp
  from cached_client_is_returned
    [where sdk = quiet_sdk and T = "''t1''" and w = 0 and ?c1.0 = c1
      and c = "NewUsersCollector one_tenant_config", THEN conjunct1, rule_format,
      OF conjI [OF a t], of 7]
    cached_client_is_returned
    [where sdk = quiet_sdk and T = "''t1''" and w = 0 and ?c2.0 = c2
      and c = "NewDevicesCollector one_tenant_config", THEN conjunct2, rule_format, OF b, of 7]
    a b
  show ?thesis
    by simp
qed


subsection \<open>Absent fields of a user\<close>

text \<open>
  Claim C5 does not hold of the code: \<^verbatim>\<open>Collect\<close> replaces an absent
  \<^verbatim>\<open>accountEnabled\<close>, \<^verbatim>\<open>userType\<close> or \<^verbatim>\<open>creationType\<close> by its placeholder, and
  dereferences the id, the principal name and the display name unchecked. The
  cache stores a user as fetched, so a user without a display name reaches
  \<^verbatim>\<open>Collect\<close>, which panics.
\<close>

theorem absent_display_name_panics_render:
  "user_DisplayName nameless = None \<and>
   map_of (usersList users_with_nameless) ''t1'' = Some [alice, nameless] \<and>
   user_info_labels ''t1'' nameless = Inl nil_dereference \<and>
   fst (UsersCollector_Collect users_with_nameless) = Some nil_dereference"
  by (simp add: UsersCollector_Collect_def user_info_labels_def alice_def nameless_def
      fixture_defs split: prod.splits)

text \<open>
  What holds: for a user whose id, principal name and display name are
  present, the sample's labels carry \<^verbatim>\<open>false\<close> for an absent \<^verbatim>\<open>accountEnabled\<close>
  and \<^verbatim>\<open>unknown\<close> for an absent \<^verbatim>\<open>userType\<close> or \<^verbatim>\<open>creationType\<close>, and a cache
  of such users is rendered without a panic.
\<close>

theorem present_identity_renders_placeholders:
  "(user_Id u = Some uid \<and> user_UserPrincipalName u = Some upn \<and> user_DisplayName u = Some dn \<longrightarrow>
      user_info_labels T u =
        Inr [T, uid, upn, dn,
             (case user_AccountEnabled u of Some True \<Rightarrow> ''true'' | _ \<Rightarrow> ''false''),
             (case user_UserType u of None \<Rightarrow> ''unknown'' | Some t \<Rightarrow> t),
             (case user_CreationType u of None \<Rightarrow> ''unknown'' | Some t \<Rightarrow> t)]) \<and>
   ((\<forall>(t, us) \<in> set (usersList c). \<forall>u \<in> set us.
        user_Id u \<noteq> None \<and> user_UserPrincipalName u \<noteq> None \<and> user_DisplayName u \<noteq> None) \<longrightarrow>
      fst (UsersCollector_Collect c) = None)"
proof (intro conjI impI)
  assume "user_Id u = Some uid \<and> user_UserPrincipalName u = Some upn \<and> user_DisplayName u = Some dn"
  then show "user_info_labels T u =
        Inr [T, uid, upn, dn,
             (case user_AccountEnabled u of Some True \<Rightarrow> ''true'' | _ \<Rightarrow> ''false''),
             (case user_UserType u of None \<Rightarrow> ''unknown'' | Some t \<Rightarrow> t),
             (case user_CreationType u of None \<Rightarrow> ''unknown'' | Some t \<Rightarrow> t)]"
    by (simp add: user_info_labels_present)
next
  have users: "fst (UsersCollector_Collect_users t us info) = None"
    if "\<forall>u \<in> set us. user_Id u \<noteq> None \<and> user_UserPrincipalName u \<noteq> None \<and>
          user_DisplayName u \<noteq> None" for t us info
    using that
  proof (induction us arbitrary: info)
    case Nil
    then show ?case by simp
  next
    case (Cons u us)
    then obtain uid upn dn where "user_Id u = Some uid" "user_UserPrincipalName u = Some upn"
      "user_DisplayName u = Some dn"
      by auto
    with Cons show ?case
      by (simp add: user_info_labels_present)
  qed
  have tenants: "fst (UsersCollector_Collect_tenants al tot info) = None"
    if "\<forall>(t, us) \<in> set al. \<forall>u \<in> set us.
          user_Id u \<noteq> None \<and> user_UserPrincipalName u \<noteq> None \<and> user_DisplayName u \<noteq> None"
    for al tot info
    using that
  proof (induction al arbitrary: tot info)
    case Nil
    then show ?case by simp
  next
    case (Cons kv al)
    obtain t us where kv: "kv = (t, us)" by (cases kv)
    obtain p info1 where u: "UsersCollector_Collect_users t us info = (p, info1)"
      by (cases "UsersCollector_Collect_users t us info")
    from Cons.prems kv have "\<forall>u \<in> set us. user_Id u \<noteq> None \<and> user_UserPrincipalName u \<noteq> None \<and>
          user_DisplayName u \<noteq> None"
      by auto
    from users [OF this, of t info] u have "p = None" by simp
    with Cons kv u show ?case
      by (simp add: Let_def)
  qed
  assume "\<forall>(t, us) \<in> set (usersList c). \<forall>u \<in> set us.
        user_Id u \<noteq> None \<and> user_UserPrincipalName u \<noteq> None \<and> user_DisplayName u \<noteq> None"
  from tenants [OF this, of "usersTotal c" "usersInfo c"]
  show "fst (UsersCollector_Collect c) = None"
    by (auto simp add: UsersCollector_Collect_def split: prod.splits)
qed

theorem present_identity_renders_placeholders_witness:
  "user_AccountEnabled alice = None \<and> user_UserType alice = None \<and>
   user_CreationType alice = None \<and>
   user_info_labels ''t1'' alice =
     Inr [''t1'', ''u-1'', ''alice@contoso.com'', ''Alice'', ''false'', ''unknown'', ''unknown''] \<and>
   fst (UsersCollector_Collect users_with_snapshot) = None"
proof -
  have a: "user_Id alice = Some ''u-1'' \<and> user_UserPrincipalName alice = Some ''alice@contoso.com'' \<and>
      user_DisplayName alice = Some ''Alice''"
    by (simp add: alice_def)
  have b: "\<forall>(t, us) \<in> set (usersList users_with_snapshot). \<forall>u \<in> set us.
        user_Id u \<noteq> None \<and> user_UserPrincipalName u \<noteq> None \<and> user_DisplayName u \<noteq> None"
    by (simp add: fixture_defs alice_def bob_def)
  from present_identity_renders_placeholders [THEN conjunct1, rule_format, OF a, of "''t1''"]
    present_identity_renders_placeholders [THEN conjunct2, THEN mp, OF b]
  show ?thesis
    by (simp add: alice_def)
qed

subsection \<open>Failures of client creation\<close>

text \<open>
  Claim C6 does not hold of the older \<^verbatim>\<open>GetGraphClient\<close>, which never asks the
  credential for a token. In a world where the credential is constructed and
  every request for a token fails, it builds a client on that credential,
  returns it with no error and stores it for the tenant, so that the next
  call is served from the cache and creation is not attempted again. The
  \<^verbatim>\<open>GetGraphClient\<close> of \<^verbatim>\<open>collector/users.go\<close> returns the validation error in the
  same world and stores nothing.
\<close>

theorem older_GetGraphClient_caches_unvalidated_credential:
  "graphClients (NewDevicesCollector one_tenant_config) ''t1'' = None \<and>
   NewDefaultAzureCredential late_token_sdk ''t1'' 0 = (Inr (DefaultAzureCredential 0), 1) \<and>
   GetToken late_token_sdk (DefaultAzureCredential 0) [''https://graph.microsoft.com/.default''] 1 =
     (Inl ''context deadline exceeded'', 2) \<and>
   GetGraphClient_part004 late_token_sdk ''t1'' (NewDevicesCollector one_tenant_config) 0 =
     (Inr (GraphServiceClient 3),
      (NewDevicesCollector one_tenant_config)
        \<lparr>graphClients := (graphClients (NewDevicesCollector one_tenant_config))
            (''t1'' \<mapsto> GraphServiceClient 3)\<rparr>,
      4) \<and>
   GetToken late_token_sdk (DefaultAzureCredential 0) [''https://graph.microsoft.com/.default''] 4 =
     (Inl ''context deadline exceeded'', 5) \<and>
   GetGraphClient_part004 late_token_sdk ''t1''
     (fst (snd (GetGraphClient_part004 late_token_sdk ''t1''
                  (NewDevicesCollector one_tenant_config) 0))) 4 =
     (Inr (GraphServiceClient 3),
      fst (snd (GetGraphClient_part004 late_token_sdk ''t1''
                  (NewDevicesCollector one_tenant_config) 0)),
      4) \<and>
   graphClients (NewUsersCollector one_tenant_config) ''t1'' = None \<and>
   GetGraphClient late_token_sdk ''t1'' (NewUsersCollector one_tenant_config) 0 =
     (Inl ''failed to validate credential: context deadline exceeded'',
      NewUsersCollector one_tenant_config, 2)"
  by (simp add: collect_defs fixture_defs numeral_3_eq_3)

text \<open>
  The \<^verbatim>\<open>GetGraphClient\<close> of \<^verbatim>\<open>collector/users.go\<close> does what the claim says. When
  the tenant has no cached client: a failure to construct the credential and
  a failure to validate it with a token come back as two different errors,
  and any error at all leaves the collector, and with it the client cache, as
  it was. A later call for the tenant therefore goes through client creation
  again: it fails once more when the credential fails once more, and when
  every step succeeds it returns the new client and stores it. The failures
  of the older \<^verbatim>\<open>GetGraphClient\<close> leave the collector unchanged too, the
  credential failure with the same error.
\<close>

theorem GetGraphClient_failure_is_not_cached:
  assumes miss: "graphClients c tenantID = None"
  shows "(\<forall>e w1. NewDefaultAzureCredential sdk
               (if tenantID = '''' then Getenv sdk w ''AZURE_TENANT_ID'' else tenantID) w = (Inl e, w1) \<longrightarrow>
             GetGraphClient sdk tenantID c w = (Inl (''failed to create credential: '' @ e), c, w1)) \<and>
         (\<forall>cred w1 e w2.
             NewDefaultAzureCredential sdk
               (if tenantID = '''' then Getenv sdk w ''AZURE_TENANT_ID'' else tenantID) w = (Inr cred, w1) \<and>
             GetToken sdk cred [''https://graph.microsoft.com/.default''] w1 = (Inl e, w2) \<longrightarrow>
             GetGraphClient sdk tenantID c w = (Inl (''failed to validate credential: '' @ e), c, w2)) \<and>
         (\<forall>e e'. ''failed to create credential: '' @ e \<noteq> ''failed to validate credential: '' @ e') \<and>
         (\<forall>err c' w'. GetGraphClient sdk tenantID c w = (Inl err, c', w') \<longrightarrow>
             c' = c \<and> graphClients c' tenantID = None \<and>
             (\<forall>v e v1.
                 NewDefaultAzureCredential sdk
                   (if tenantID = '''' then Getenv sdk v ''AZURE_TENANT_ID'' else tenantID) v = (Inl e, v1) \<longrightarrow>
                 GetGraphClient sdk tenantID c' v =
                   (Inl (''failed to create credential: '' @ e), c', v1)) \<and>
             (\<forall>v cred v1 u v2 p v3 a v4 cl v5.
                 NewDefaultAzureCredential sdk
                   (if tenantID = '''' then Getenv sdk v ''AZURE_TENANT_ID'' else tenantID) v = (Inr cred, v1) \<and>
                 GetToken sdk cred [''https://graph.microsoft.com/.default''] v1 = (Inr u, v2) \<and>
                 NewAzureIdentityAuthenticationProvider sdk cred v2 = (Inr p, v3) \<and>
                 NewGraphRequestAdapter sdk p v3 = (Inr a, v4) \<and>
                 NewGraphServiceClient sdk a v4 = (cl, v5) \<longrightarrow>
                 GetGraphClient sdk tenantID c' v =
                   (Inr cl,
                    c'\<lparr>graphClients := (graphClients c')
                        ((if tenantID = '''' then Getenv sdk v ''AZURE_TENANT_ID'' else tenantID)
                           \<mapsto> cl)\<rparr>,
                    v5))) \<and>
         (\<forall>e w1. NewDefaultAzureCredential sdk tenantID w = (Inl e, w1) \<longrightarrow>
             GetGraphClient_part004 sdk tenantID c w =
               (Inl (''failed to create credential: '' @ e), c, w1)) \<and>
         (\<forall>err c' w'. GetGraphClient_part004 sdk tenantID c w = (Inl err, c', w') \<longrightarrow> c' = c)"
proof (intro conjI allI impI)
  fix e w1
  assume "NewDefaultAzureCredential sdk
            (if tenantID = '''' then Getenv sdk w ''AZURE_TENANT_ID'' else tenantID) w = (Inl e, w1)"
  with miss show "GetGraphClient sdk tenantID c w =
      (Inl (''failed to create credential: '' @ e), c, w1)"
    by (rule GetGraphClient_credential_failure)
next
  fix cred w1 e w2
  assume "NewDefaultAzureCredential sdk
            (if tenantID = '''' then Getenv sdk w ''AZURE_TENANT_ID'' else tenantID) w = (Inr cred, w1) \<and>
          GetToken sdk cred [''https://graph.microsoft.com/.default''] w1 = (Inl e, w2)"
  with miss show "GetGraphClient sdk tenantID c w =
      (Inl (''failed to validate credential: '' @ e), c, w2)"
    by (simp add: GetGraphClient_token_failure)
next
  fix e e' :: string
  show "''failed to create credential: '' @ e \<noteq> ''failed to validate credential: '' @ e'"
    by simp
next
  fix err c' w'
  assume "GetGraphClient sdk tenantID c w = (Inl err, c', w')"
  then show c': "c' = c"
    by (rule GetGraphClient_error_frame)
  with miss show miss': "graphClients c' tenantID = None"
    by simp
  {
    fix v e v1
    assume "NewDefaultAzureCredential sdk
              (if tenantID = '''' then Getenv sdk v ''AZURE_TENANT_ID'' else tenantID) v = (Inl e, v1)"
    with miss' show "GetGraphClient sdk tenantID c' v =
        (Inl (''failed to create credential: '' @ e), c', v1)"
      by (rule GetGraphClient_credential_failure)
  next
    fix v cred v1 u v2 p v3 a v4 cl v5
    assume "NewDefaultAzureCredential sdk
              (if tenantID = '''' then Getenv sdk v ''AZURE_TENANT_ID'' else tenantID) v = (Inr cred, v1) \<and>
            GetToken sdk cred [''https://graph.microsoft.com/.default''] v1 = (Inr u, v2) \<and>
            NewAzureIdentityAuthenticationProvider sdk cred v2 = (Inr p, v3) \<and>
            NewGraphRequestAdapter sdk p v3 = (Inr a, v4) \<and>
            NewGraphServiceClient sdk a v4 = (cl, v5)"
    with miss' show "GetGraphClient sdk tenantID c' v =
        (Inr cl,
         c'\<lparr>graphClients := (graphClients c')
             ((if tenantID = '''' then Getenv sdk v ''AZURE_TENANT_ID'' else tenantID) \<mapsto> cl)\<rparr>,
         v5)"
      by (simp add: GetGraphClient_success)
  }
next
  fix e w1
  assume "NewDefaultAzureCredential sdk tenantID w = (Inl e, w1)"
  with miss show "GetGraphClient_part004 sdk tenantID c w =
      (Inl (''failed to create credential: '' @ e), c, w1)"
    by (rule GetGraphClient_part004_credential_failure)
next
  fix err c' w'
  assume "GetGraphClient_part004 sdk tenantID c w = (Inl err, c', w')"
  then show "c' = c"
    by (rule GetGraphClient_part004_error_frame)
qed

theorem GetGraphClient_failure_is_not_cached_witness:
  "graphClients (NewUsersCollector one_tenant_config) ''t1'' = None \<and>
   NewDefaultAzureCredential no_credential_sdk ''t1'' 0 = (Inl ''no credential source'', 1) \<and>
   GetGraphClient no_credential_sdk ''t1'' (NewUsersCollector one_tenant_config) 0 =
     (Inl ''failed to create credential: no credential source'',
      NewUsersCollector one_tenant_config, 1) \<and>
   GetToken late_token_sdk (DefaultAzureCredential 0) [''https://graph.microsoft.com/.default''] 1 =
     (Inl ''context deadline exceeded'', 2) \<and>
   GetGraphClient late_token_sdk ''t1'' (NewUsersCollector one_tenant_config) 0 =
     (Inl ''failed to validate credential: context deadline exceeded'',
      NewUsersCollector one_tenant_config, 2) \<and>
   GetGraphClient late_token_sdk ''t1'' (NewUsersCollector one_tenant_config) 9 =
     (Inr (GraphServiceClient 13),
      (NewUsersCollector one_tenant_config)
        \<lparr>graphClients := (graphClients (NewUsersCollector one_tenant_config))
            (''t1'' \<mapsto> GraphServiceClient 13)\<rparr>,
      14)"
proof -
  let ?c = "NewUsersCollector one_tenant_config"
  have miss: "graphClients ?c ''t1'' = None"
    by (simp add: NewUsersCollector_def NewBaseCollector_def BaseCollector.extend_def
        UsersCollector.fields_def)
  have cred: "NewDefaultAzureCredential no_credential_sdk
                (if ''t1'' = [] then Getenv no_credential_sdk 0 ''AZURE_TENANT_ID'' else ''t1'') 0 =
              (Inl ''no credential source'', 1)"
    by (simp add: no_credential_sdk_def quiet_sdk_def)
  have token: "NewDefaultAzureCredential late_token_sdk
                 (if ''t1'' = [] then Getenv late_token_sdk 0 ''AZURE_TENANT_ID'' else ''t1'') 0 =
               (Inr (DefaultAzureCredential 0), 1) \<and>
               GetToken late_token_sdk (DefaultAzureCredential 0)
                 [''https://graph.microsoft.com/.default''] 1 = (Inl ''context deadline exceeded'', 2)"
    by (simp add: late_token_sdk_def quiet_sdk_def)
  have later: "NewDefaultAzureCredential late_token_sdk
                 (if ''t1'' = [] then Getenv late_token_sdk 9 ''AZURE_TENANT_ID'' else ''t1'') 9 =
               (Inr (DefaultAzureCredential 9), 10) \<and>
               GetToken late_token_sdk (DefaultAzureCredential 9)
                 [''https://graph.microsoft.com/.default''] 10 = (Inr (), 11) \<and>
               NewAzureIdentityAuthenticationProvider late_token_sdk (DefaultAzureCredential 9) 11 =
                 (Inr (AzureIdentityAuthenticationProvider 11), 12) \<and>
               NewGraphRequestAdapter late_token_sdk (AzureIdentityAuthenticationProvider 11) 12 =
                 (Inr (GraphRequestAdapter 12), 13) \<and>
               NewGraphServiceClient late_token_sdk (GraphRequestAdapter 12) 13 =
                 (GraphServiceClient 13, 14)"
    by (simp add: late_token_sdk_def quiet_sdk_def)
  note no_cred = GetGraphClient_failure_is_not_cached [OF miss, of no_credential_sdk 0]
  note late = GetGraphClient_failure_is_not_cached [OF miss, of late_token_sdk 0]
  have a: "GetGraphClient no_credential_sdk ''t1'' ?c 0 =
      (Inl (''failed to create credential: '' @ ''no credential source''), ?c, 1)"
    using no_cred [THEN conjunct1, rule_format, OF cred] .
  have b: "GetGraphClient late_token_sdk ''t1'' ?c 0 =
      (Inl (''failed to validate credential: '' @ ''context deadline exceeded''), ?c, 2)"
    using late [THEN conjunct2, THEN conjunct1, rule_format, OF token] .
  have c: "GetGraphClient late_token_sdk ''t1'' ?c 9 =
      (Inr (GraphServiceClient 13),
       ?c\<lparr>graphClients := (graphClients ?c)
           ((if ''t1'' = [] then Getenv late_token_sdk 9 ''AZURE_TENANT_ID'' else ''t1'')
              \<mapsto> GraphServiceClient 13)\<rparr>, 14)"
    using late [THEN conjunct2, THEN conjunct2, THEN conjunct2, THEN conjunct1, rule_format,
        OF b, THEN conjunct2, THEN conjunct2, THEN conjunct2, rule_format, OF later] .
  from miss cred token a b c show ?thesis
    by simp
qed

subsection \<open>The five count fetches of the general collector\<close>

text \<open>
  Claim C7. In one tenant's pass of the general collector, with \<open>r1\<close>, ..., \<open>r5\<close>
  the answers to the five count fetches: the tenant's new statistics map holds,
  under each of the five names, exactly the count its own fetch returned, and
  nothing when that fetch failed or carried no count, whatever the other
  fetches did; the tenant's error counter grows by the number of failed
  fetches; and after the next \<^verbatim>\<open>Collect\<close> the gauge shows the new value of every
  statistic in the map and still shows the earlier value of every other one.
\<close>

theorem general_sub_fetches_independent:
  assumes now: "Now sdk w = (start, w0)"
    and client: "GetGraphClient_part004 sdk T c w0 = (Inr client, c1, w1)"
    and users: "UsersGet sdk client None w1 = (r1, w2)"
    and devices: "DevicesGet sdk client None w2 = (r2, w3)"
    and applications: "ApplicationsGet sdk client None w3 = (r3, w4)"
    and servicePrincipals: "ServicePrincipalsGet sdk client None w4 = (r4, w5)"
    and groups: "GroupsGet sdk client None w5 = (r5, w6)"
    and keys: "distinct (map fst (stats c))"
    and result: "c' = fst (GeneralCollector_collect_tenant sdk T c w)"
  shows "\<exists>m. map_of (stats c') T = Some m \<and>
           map_of m ''user_count'' = count_of r1 \<and>
           map_of m ''device_count'' = count_of r2 \<and>
           map_of m ''application_count'' = count_of r3 \<and>
           map_of m ''service_principal_count'' = count_of r4 \<and>
           map_of m ''group_count'' = count_of r5 \<and>
           counter_value (scrapeErrors c') [T] =
             counter_value (scrapeErrors c) [T] +
               (failed r1 + failed r2 + failed r3 + failed r4 + failed r5) \<and>
           (\<forall>metric. statsMetric (GeneralCollector_Collect c') [T, metric] =
              (case map_of m metric of None \<Rightarrow> statsMetric c [T, metric] | Some v \<Rightarrow> Some v))"
proof -
  define m1 where "m1 = (case count_of r1 of None \<Rightarrow> [] | Some v \<Rightarrow> AList.update ''user_count'' v [])"
  define m2 where "m2 = (case count_of r2 of None \<Rightarrow> m1 | Some v \<Rightarrow> AList.update ''device_count'' v m1)"
  define m3 where "m3 = (case count_of r3 of None \<Rightarrow> m2 | Some v \<Rightarrow> AList.update ''application_count'' v m2)"
  define m4 where "m4 = (case count_of r4 of None \<Rightarrow> m3 | Some v \<Rightarrow> AList.update ''service_principal_count'' v m3)"
  define m5 where "m5 = (case count_of r5 of None \<Rightarrow> m4 | Some v \<Rightarrow> AList.update ''group_count'' v m4)"
  define n where "n = failed r1 + failed r2 + failed r3 + failed r4 + failed r5"
  have c1: "c1 = c\<lparr>graphClients := graphClients c1\<rparr>"
    using client by (rule GetGraphClient_part004_frame)
  have s1: "fetch_count (UsersGet sdk client) T ''user_count'' ([], c1, w1) =
      (m1, c1\<lparr>scrapeErrors := (CounterInc [T] ^^ failed r1) (scrapeErrors c1)\<rparr>, w2)"
    by (simp add: fetch_count_eq [where get = "UsersGet sdk client", OF users] m1_def)
  have s2: "fetch_count (DevicesGet sdk client) T ''device_count''
        (m1, c1\<lparr>scrapeErrors := (CounterInc [T] ^^ failed r1) (scrapeErrors c1)\<rparr>, w2) =
      (m2, c1\<lparr>scrapeErrors := (CounterInc [T] ^^ (failed r1 + failed r2)) (scrapeErrors c1)\<rparr>, w3)"
    by (simp add: fetch_count_eq [where get = "DevicesGet sdk client", OF devices] m2_def CounterInc_funpow_add)
  have s3: "fetch_count (ApplicationsGet sdk client) T ''application_count''
        (m2, c1\<lparr>scrapeErrors := (CounterInc [T] ^^ (failed r1 + failed r2)) (scrapeErrors c1)\<rparr>, w3) =
      (m3, c1\<lparr>scrapeErrors := (CounterInc [T] ^^ (failed r1 + failed r2 + failed r3))
                 (scrapeErrors c1)\<rparr>, w4)"
    by (simp add: fetch_count_eq [where get = "ApplicationsGet sdk client", OF applications] m3_def CounterInc_funpow_add)
  have s4: "fetch_count (ServicePrincipalsGet sdk client) T ''service_principal_count''
        (m3, c1\<lparr>scrapeErrors := (CounterInc [T] ^^ (failed r1 + failed r2 + failed r3))
                 (scrapeErrors c1)\<rparr>, w4) =
      (m4, c1\<lparr>scrapeErrors := (CounterInc [T] ^^ (failed r1 + failed r2 + failed r3 + failed r4))
                 (scrapeErrors c1)\<rparr>, w5)"
    by (simp add: fetch_count_eq [where get = "ServicePrincipalsGet sdk client", OF servicePrincipals] m4_def CounterInc_funpow_add)
  have s5: "fetch_count (GroupsGet sdk client) T ''group_count''
        (m4, c1\<lparr>scrapeErrors := (CounterInc [T] ^^ (failed r1 + failed r2 + failed r3 + failed r4))
                 (scrapeErrors c1)\<rparr>, w5) =
      (m5, c1\<lparr>scrapeErrors := (CounterInc [T] ^^ n) (scrapeErrors c1)\<rparr>, w6)"
    by (simp add: fetch_count_eq [where get = "GroupsGet sdk client", OF groups] m5_def CounterInc_funpow_add n_def)
  have "GeneralCollector_collect_tenant sdk T c w =
      update_scrape_metrics sdk T start
        (c1\<lparr>scrapeErrors := (CounterInc [T] ^^ n) (scrapeErrors c1),
            stats := AList.update T m5 (stats c1)\<rparr>) w6"
    by (simp add: GeneralCollector_collect_tenant_def Let_def now client s1 s2 s3 s4 s5)
  with result have c': "c' = fst (update_scrape_metrics sdk T start
                (c1\<lparr>scrapeErrors := (CounterInc [T] ^^ n) (scrapeErrors c1),
                    stats := AList.update T m5 (stats c1)\<rparr>) w6)"
    by simp
  have d1: "distinct (map fst m1)" by (simp add: m1_def split: option.splits)
  have d2: "distinct (map fst m2)" using d1 by (simp add: m2_def distinct_update split: option.splits)
  have d3: "distinct (map fst m3)" using d2 by (simp add: m3_def distinct_update split: option.splits)
  have d4: "distinct (map fst m4)" using d3 by (simp add: m4_def distinct_update split: option.splits)
  have d5: "distinct (map fst m5)" using d4 by (simp add: m5_def distinct_update split: option.splits)
  have stats: "stats c' = AList.update T m5 (stats c)"
    by (subst c', subst c1) (simp add: update_scrape_metrics_eq)
  have entry: "map_of (stats c') T = Some m5"
    by (simp add: stats update_conv')
  have k1: "map_of m1 k = (if k = ''user_count'' then count_of r1 else None)" for k
    by (simp add: m1_def update_conv' split: option.splits)
  have k2: "map_of m2 k = (if k = ''device_count'' then count_of r2 else map_of m1 k)" for k
    by (auto simp add: m2_def update_conv' k1 split: option.splits)
  have k3: "map_of m3 k = (if k = ''application_count'' then count_of r3 else map_of m2 k)" for k
    by (auto simp add: m3_def update_conv' k1 k2 split: option.splits)
  have k4: "map_of m4 k = (if k = ''service_principal_count'' then count_of r4 else map_of m3 k)" for k
    by (auto simp add: m4_def update_conv' k1 k2 k3 split: option.splits)
  have k5: "map_of m5 k = (if k = ''group_count'' then count_of r5 else map_of m4 k)" for k
    by (auto simp add: m5_def update_conv' k1 k2 k3 k4 split: option.splits)
  have errs: "scrapeErrors c' = (CounterInc [T] ^^ n) (scrapeErrors c)"
    by (subst c', subst c1) (simp add: update_scrape_metrics_eq)
  have gauge: "statsMetric c' = statsMetric c"
    by (subst c', subst c1) (simp add: update_scrape_metrics_eq)
  have render: "statsMetric (GeneralCollector_Collect c') [T, metric] =
      (case map_of m5 metric of None \<Rightarrow> statsMetric c [T, metric] | Some v \<Rightarrow> Some v)" for metric
    using keys entry d5
    by (simp add: GeneralCollector_Collect_def gauge stats Collect_tenants_same distinct_update)
  show ?thesis
    apply (rule exI [of _ m5])
    apply (intro conjI allI impI)
           apply (rule entry)
          apply (simp add: k5 k4 k3 k2 k1)
         apply (simp add: k5 k4 k3 k2 k1)
        apply (simp add: k5 k4 k3 k2 k1)
       apply (simp add: k5 k4 k3 k2 k1)
      apply (simp add: k5 k4 k3 k2 k1)
     apply (simp add: errs counter_value_funpow n_def)
    apply (rule render)
    done
qed

theorem general_sub_fetches_independent_witness:
  "DevicesGet counts_sdk (GraphServiceClient 4) None 6 = (Inl ''503 Service Unavailable'', 7) \<and>
   statsMetric general_with_scrape [''t1'', ''device_count''] = Some 5 \<and>
   (\<exists>m. map_of (stats (fst (GeneralCollector_collect_tenant counts_sdk ''t1'' general_with_scrape 0)))
          ''t1'' = Some m \<and>
        map_of m ''user_count'' = Some 3 \<and>
        map_of m ''device_count'' = None \<and>
        map_of m ''application_count'' = Some 7 \<and>
        map_of m ''service_principal_count'' = Some 2 \<and>
        map_of m ''group_count'' = Some 4) \<and>
   counter_value
     (scrapeErrors (fst (GeneralCollector_collect_tenant counts_sdk ''t1'' general_with_scrape 0)))
     [''t1''] = 1 \<and>
   statsMetric
     (GeneralCollector_Collect
        (fst (GeneralCollector_collect_tenant counts_sdk ''t1'' general_with_scrape 0)))
     [''t1'', ''device_count''] = Some 5 \<and>
   statsMetric
     (GeneralCollector_Collect
        (fst (GeneralCollector_collect_tenant counts_sdk ''t1'' general_with_scrape 0)))
     [''t1'', ''application_count''] = Some 7"
proof -
  define c1 where "c1 = fst (snd (GetGraphClient_part004 counts_sdk ''t1'' general_with_scrape 1))"
  have now: "Now counts_sdk 0 = (0, 1)"
    by (simp add: counts_sdk_def quiet_sdk_def)
  have client: "GetGraphClient_part004 counts_sdk ''t1'' general_with_scrape 1 =
      (Inr (GraphServiceClient 4), c1, 5)"
    by (simp add: c1_def GetGraphClient_part004_def GetGraphClient_locked_part004_def
        counts_sdk_def quiet_sdk_def general_with_scrape_def NewGeneralCollector_def
        NewBaseCollector_def BaseCollector.extend_def GeneralCollector.fields_def)
  have r1: "UsersGet counts_sdk (GraphServiceClient 4) None 5 = (Inr (Some (count_page 3)), 6)"
    and r2: "DevicesGet counts_sdk (GraphServiceClient 4) None 6 = (Inl ''503 Service Unavailable'', 7)"
    and r3: "ApplicationsGet counts_sdk (GraphServiceClient 4) None 7 = (Inr (Some (count_page 7)), 8)"
    and r4: "ServicePrincipalsGet counts_sdk (GraphServiceClient 4) None 8 =
               (Inr (Some (count_page 2)), 9)"
    and r5: "GroupsGet counts_sdk (GraphServiceClient 4) None 9 = (Inr (Some (count_page 4)), 10)"
    by (simp_all add: counts_sdk_def quiet_sdk_def)
  have keys: "distinct (map fst (stats general_with_scrape))"
    and old: "statsMetric general_with_scrape [''t1'', ''device_count''] = Some 5"
      "statsMetric general_with_scrape [''t1'', ''application_count''] = None"
      "counter_value (scrapeErrors general_with_scrape) [''t1''] = 0"
    by (simp_all add: general_with_scrape_def NewGeneralCollector_def NewBaseCollector_def
        BaseCollector.extend_def GeneralCollector.fields_def counter_value_def)
  have counts [simp]: "count_of (Inr (Some (count_page 3)) :: string + user collection_response option) = Some 3"
    "count_of (Inl ''503 Service Unavailable'' :: string + device collection_response option) = None"
    "count_of (Inr (Some (count_page 7)) :: string + application collection_response option) = Some 7"
    "count_of (Inr (Some (count_page 2)) :: string + service_principal collection_response option) = Some 2"
    "count_of (Inr (Some (count_page 4)) :: string + group collection_response option) = Some 4"
    by (simp_all add: count_of_def count_page_def)
  from general_sub_fetches_independent [OF now client r1 r2 r3 r4 r5 keys refl]
  obtain m where
    "map_of (stats (fst (GeneralCollector_collect_tenant counts_sdk ''t1'' general_with_scrape 0)))
       ''t1'' = Some m"
    "map_of m ''user_count'' = Some 3" "map_of m ''device_count'' = None"
    "map_of m ''application_count'' = Some 7" "map_of m ''service_principal_count'' = Some 2"
    "map_of m ''group_count'' = Some 4"
    "counter_value
       (scrapeErrors (fst (GeneralCollector_collect_tenant counts_sdk ''t1'' general_with_scrape 0)))
       [''t1''] = 1"
    "\<And>metric. statsMetric
       (GeneralCollector_Collect
          (fst (GeneralCollector_collect_tenant counts_sdk ''t1'' general_with_scrape 0)))
       [''t1'', metric] =
       (case map_of m metric of None \<Rightarrow> statsMetric general_with_scrape [''t1'', metric]
        | Some v \<Rightarrow> Some v)"
    by (auto simp add: old failed_def)
  then show ?thesis
    using r2 old by auto
qed

subsection \<open>Scrape duration and last scrape time\<close>

text \<open>
  Claim C8, as the code has it. In a tenant's pass of the users or the devices
  collector the scrape duration is observed and the last scrape time is set
  when the Graph client was obtained, the first page was fetched and the
  pagination returned, with all pages or cut short by a failed later page.
  When obtaining the client fails, or the fetch of the first page fails, the
  pass ends at the error counter: the tenant's counter grows by one, both
  metrics are left as they were, for every tenant, and so is the cache of
  fetched entities.
\<close>

theorem scrape_metrics_recorded_after_first_page:
  "(Now sdk w = (start, w0) \<and> GetGraphClient sdk T cu w0 = (Inl err, cu1, w1) \<longrightarrow>
      (\<exists>c' w'. UsersCollector_collect_tenant sdk T cu w = Some (None, c', w') \<and>
         counter_value (scrapeErrors c') [T] = counter_value (scrapeErrors cu) [T] + 1 \<and>
         scrapeDuration c' = scrapeDuration cu \<and> lastScrapeTime c' = lastScrapeTime cu \<and>
         usersList c' = usersList cu)) \<and>
   (Now sdk w = (start, w0) \<and> GetGraphClient sdk T cu w0 = (Inr client, cu1, w1) \<and>
    UsersGet sdk client (Some users_reqConfig) w1 = (Inl err, w2) \<longrightarrow>
      (\<exists>c' w'. UsersCollector_collect_tenant sdk T cu w = Some (None, c', w') \<and>
         counter_value (scrapeErrors c') [T] = counter_value (scrapeErrors cu) [T] + 1 \<and>
         scrapeDuration c' = scrapeDuration cu \<and> lastScrapeTime c' = lastScrapeTime cu \<and>
         usersList c' = usersList cu)) \<and>
   (Now sdk w = (start, w0) \<and> GetGraphClient sdk T cu w0 = (Inr client, cu1, w1) \<and>
    UsersGet sdk client (Some users_reqConfig) w1 = (Inr (Some first), w2) \<and>
    pagination_loop (UsersGet sdk client) T first (append_value [] first) cu1 w2 =
      Some (None, list, cu2, w3) \<longrightarrow>
      (\<exists>c' w'. UsersCollector_collect_tenant sdk T cu w = Some (None, c', w') \<and>
         scrapeDuration c' [T] =
           Some ((case scrapeDuration cu [T] of None \<Rightarrow> [] | Some xs \<Rightarrow> xs) @
                 [Seconds (Sub (fst (Now sdk w3)) start)]) \<and>
         lastScrapeTime c' [T] =
           Some (real_of_int (Unix (fst (Now sdk (snd (Now sdk w3)))))))) \<and>
   (Now sdk v = (dstart, v0) \<and> GetGraphClient_part004 sdk T cd v0 = (Inl derr, cd1, v1) \<longrightarrow>
      (\<exists>c' v'. DevicesCollector_collect_tenant sdk T cd v = Some (None, c', v') \<and>
         counter_value (scrapeErrors c') [T] = counter_value (scrapeErrors cd) [T] + 1 \<and>
         scrapeDuration c' = scrapeDuration cd \<and> lastScrapeTime c' = lastScrapeTime cd \<and>
         devicesList c' = devicesList cd)) \<and>
   (Now sdk v = (dstart, v0) \<and> GetGraphClient_part004 sdk T cd v0 = (Inr dclient, cd1, v1) \<and>
    DevicesGet sdk dclient (Some devices_reqConfig) v1 = (Inl derr, v2) \<longrightarrow>
      (\<exists>c' v'. DevicesCollector_collect_tenant sdk T cd v = Some (None, c', v') \<and>
         counter_value (scrapeErrors c') [T] = counter_value (scrapeErrors cd) [T] + 1 \<and>
         scrapeDuration c' = scrapeDuration cd \<and> lastScrapeTime c' = lastScrapeTime cd \<and>
         devicesList c' = devicesList cd)) \<and>
   (Now sdk v = (dstart, v0) \<and> GetGraphClient_part004 sdk T cd v0 = (Inr dclient, cd1, v1) \<and>
    DevicesGet sdk dclient (Some devices_reqConfig) v1 = (Inr (Some dfirst), v2) \<and>
    pagination_loop (DevicesGet sdk dclient) T dfirst (append_value [] dfirst) cd1 v2 =
      Some (None, dlist, cd2, v3) \<longrightarrow>
      (\<exists>c' v'. DevicesCollector_collect_tenant sdk T cd v = Some (None, c', v') \<and>
         scrapeDuration c' [T] =
           Some ((case scrapeDuration cd [T] of None \<Rightarrow> [] | Some xs \<Rightarrow> xs) @
                 [Seconds (Sub (fst (Now sdk v3)) dstart)]) \<and>
         lastScrapeTime c' [T] =
           Some (real_of_int (Unix (fst (Now sdk (snd (Now sdk v3))))))))"
proof (intro conjI impI; (elim conjE)?)
  assume now: "Now sdk w = (start, w0)"
    and client: "GetGraphClient sdk T cu w0 = (Inl err, cu1, w1)"
  show "\<exists>c' w'. UsersCollector_collect_tenant sdk T cu w = Some (None, c', w') \<and>
         counter_value (scrapeErrors c') [T] = counter_value (scrapeErrors cu) [T] + 1 \<and>
         scrapeDuration c' = scrapeDuration cu \<and> lastScrapeTime c' = lastScrapeTime cu \<and>
         usersList c' = usersList cu"
    unfolding UsersCollector_client_error [OF now client] by simp
next
  assume now: "Now sdk w = (start, w0)"
    and client: "GetGraphClient sdk T cu w0 = (Inr client, cu1, w1)"
    and first: "UsersGet sdk client (Some users_reqConfig) w1 = (Inl err, w2)"
  have cu1: "cu1 = cu\<lparr>graphClients := graphClients cu1\<rparr>"
    using client by (rule GetGraphClient_frame)
  have "scrapeDuration cu1 = scrapeDuration cu" "lastScrapeTime cu1 = lastScrapeTime cu"
    "scrapeErrors cu1 = scrapeErrors cu" "usersList cu1 = usersList cu"
    by (subst cu1, simp)+
  then show "\<exists>c' w'. UsersCollector_collect_tenant sdk T cu w = Some (None, c', w') \<and>
         counter_value (scrapeErrors c') [T] = counter_value (scrapeErrors cu) [T] + 1 \<and>
         scrapeDuration c' = scrapeDuration cu \<and> lastScrapeTime c' = lastScrapeTime cu \<and>
         usersList c' = usersList cu"
    unfolding UsersCollector_first_page_error [OF now client first] by simp
next
  assume now: "Now sdk w = (start, w0)"
    and client: "GetGraphClient sdk T cu w0 = (Inr client, cu1, w1)"
    and first: "UsersGet sdk client (Some users_reqConfig) w1 = (Inr (Some first), w2)"
    and loop: "pagination_loop (UsersGet sdk client) T first (append_value [] first) cu1 w2 =
      Some (None, list, cu2, w3)"
  have cu1: "cu1 = cu\<lparr>graphClients := graphClients cu1\<rparr>"
    using client by (rule GetGraphClient_frame)
  from pagination_loop_frame [OF loop] obtain e where cu2: "cu2 = cu1\<lparr>scrapeErrors := e\<rparr>"
    by blast
  have "scrapeDuration cu2 = scrapeDuration cu"
    by (subst cu2, subst cu1) simp
  then show "\<exists>c' w'. UsersCollector_collect_tenant sdk T cu w = Some (None, c', w') \<and>
         scrapeDuration c' [T] =
           Some ((case scrapeDuration cu [T] of None \<Rightarrow> [] | Some xs \<Rightarrow> xs) @
                 [Seconds (Sub (fst (Now sdk w3)) start)]) \<and>
         lastScrapeTime c' [T] =
           Some (real_of_int (Unix (fst (Now sdk (snd (Now sdk w3))))))"
    unfolding UsersCollector_paginated [OF now client first loop] update_scrape_metrics_eq
    by (simp add: SummaryObserve_def GaugeSet_def split: option.splits)
next
  assume now: "Now sdk v = (dstart, v0)"
    and client: "GetGraphClient_part004 sdk T cd v0 = (Inl derr, cd1, v1)"
  show "\<exists>c' v'. DevicesCollector_collect_tenant sdk T cd v = Some (None, c', v') \<and>
         counter_value (scrapeErrors c') [T] = counter_value (scrapeErrors cd) [T] + 1 \<and>
         scrapeDuration c' = scrapeDuration cd \<and> lastScrapeTime c' = lastScrapeTime cd \<and>
         devicesList c' = devicesList cd"
    unfolding DevicesCollector_client_error [OF now client] by simp
next
  assume now: "Now sdk v = (dstart, v0)"
    and client: "GetGraphClient_part004 sdk T cd v0 = (Inr dclient, cd1, v1)"
    and first: "DevicesGet sdk dclient (Some devices_reqConfig) v1 = (Inl derr, v2)"
  have cd1: "cd1 = cd\<lparr>graphClients := graphClients cd1\<rparr>"
    using client by (rule GetGraphClient_part004_frame)
  have "scrapeDuration cd1 = scrapeDuration cd" "lastScrapeTime cd1 = lastScrapeTime cd"
    "scrapeErrors cd1 = scrapeErrors cd" "devicesList cd1 = devicesList cd"
    by (subst cd1, simp)+
  then show "\<exists>c' v'. DevicesCollector_collect_tenant sdk T cd v = Some (None, c', v') \<and>
         counter_value (scrapeErrors c') [T] = counter_value (scrapeErrors cd) [T] + 1 \<and>
         scrapeDuration c' = scrapeDuration cd \<and> lastScrapeTime c' = lastScrapeTime cd \<and>
         devicesList c' = devicesList cd"
    unfolding DevicesCollector_first_page_error [OF now client first] by simp
next
  assume now: "Now sdk v = (dstart, v0)"
    and client: "GetGraphClient_part004 sdk T cd v0 = (Inr dclient, cd1, v1)"
    and first: "DevicesGet sdk dclient (Some devices_reqConfig) v1 = (Inr (Some dfirst), v2)"
    and loop: "pagination_loop (DevicesGet sdk dclient) T dfirst (append_value [] dfirst) cd1 v2 =
      Some (None, dlist, cd2, v3)"
  have cd1: "cd1 = cd\<lparr>graphClients := graphClients cd1\<rparr>"
    using client by (rule GetGraphClient_part004_frame)
  from pagination_loop_frame [OF loop] obtain e where cd2: "cd2 = cd1\<lparr>scrapeErrors := e\<rparr>"
    by blast
  have "scrapeDuration cd2 = scrapeDuration cd"
    by (subst cd2, subst cd1) simp
  then show "\<exists>c' v'. DevicesCollector_collect_tenant sdk T cd v = Some (None, c', v') \<and>
         scrapeDuration c' [T] =
           Some ((case scrapeDuration cd [T] of None \<Rightarrow> [] | Some xs \<Rightarrow> xs) @
                 [Seconds (Sub (fst (Now sdk v3)) dstart)]) \<and>
         lastScrapeTime c' [T] =
           Some (real_of_int (Unix (fst (Now sdk (snd (Now sdk v3))))))"
    unfolding DevicesCollector_paginated [OF now client first loop] update_scrape_metrics_eq
    by (simp add: SummaryObserve_def GaugeSet_def split: option.splits)
qed


theorem scrape_metrics_recorded_after_first_page_witness:
  "fst (GetGraphClient no_credential_sdk ''t1'' users_with_snapshot 1) =
     Inl ''failed to create credential: no credential source'' \<and>
   (\<exists>c' w'. UsersCollector_collect_tenant no_credential_sdk ''t1'' users_with_snapshot 0 =
               Some (None, c', w') \<and>
      counter_value (scrapeErrors c') [''t1''] = 1 \<and>
      scrapeDuration c' = scrapeDuration users_with_snapshot \<and>
      lastScrapeTime c' = lastScrapeTime users_with_snapshot \<and>
      usersList c' = usersList users_with_snapshot) \<and>
   UsersGet first_page_fails_sdk (GraphServiceClient 5) (Some users_reqConfig) 6 =
     (Inl ''503 Service Unavailable'', 7) \<and>
   (\<exists>c' w'. UsersCollector_collect_tenant first_page_fails_sdk ''t1'' users_with_snapshot 0 =
               Some (None, c', w') \<and>
      counter_value (scrapeErrors c') [''t1''] = 1 \<and>
      scrapeDuration c' = scrapeDuration users_with_snapshot \<and>
      lastScrapeTime c' = lastScrapeTime users_with_snapshot \<and>
      usersList c' = usersList users_with_snapshot) \<and>
   UsersGet second_page_fails_sdk (GraphServiceClient 5) None 7 = (Inl ''429 Too Many Requests'', 8) \<and>
   (\<exists>c' w'. UsersCollector_collect_tenant second_page_fails_sdk ''t1'' users_with_snapshot 0 =
               Some (None, c', w') \<and>
      scrapeDuration c' [''t1''] = Some [8] \<and> lastScrapeTime c' [''t1''] = Some 9) \<and>
   fst (GetGraphClient_part004 no_credential_sdk ''t1'' devices_with_snapshot 1) =
     Inl ''failed to create credential: no credential source'' \<and>
   (\<exists>c' w'. DevicesCollector_collect_tenant no_credential_sdk ''t1'' devices_with_snapshot 0 =
               Some (None, c', w') \<and>
      counter_value (scrapeErrors c') [''t1''] = 1 \<and>
      scrapeDuration c' = scrapeDuration devices_with_snapshot \<and>
      lastScrapeTime c' = lastScrapeTime devices_with_snapshot \<and>
      devicesList c' = devicesList devices_with_snapshot) \<and>
   DevicesGet first_page_fails_sdk (GraphServiceClient 4) (Some devices_reqConfig) 5 =
     (Inl ''503 Service Unavailable'', 6) \<and>
   (\<exists>c' w'. DevicesCollector_collect_tenant first_page_fails_sdk ''t1'' devices_with_snapshot 0 =
               Some (None, c', w') \<and>
      counter_value (scrapeErrors c') [''t1''] = 1 \<and>
      scrapeDuration c' = scrapeDuration devices_with_snapshot \<and>
      lastScrapeTime c' = lastScrapeTime devices_with_snapshot \<and>
      devicesList c' = devicesList devices_with_snapshot) \<and>
   DevicesGet second_page_fails_sdk (GraphServiceClient 4) None 6 = (Inl ''429 Too Many Requests'', 7) \<and>
   (\<exists>c' w'. DevicesCollector_collect_tenant second_page_fails_sdk ''t1'' devices_with_snapshot 0 =
               Some (None, c', w') \<and>
      scrapeDuration c' [''t1''] = Some [7] \<and> lastScrapeTime c' [''t1''] = Some 8)"
proof -
  let ?cu = users_with_snapshot and ?cd = devices_with_snapshot
  define cu1 where "cu1 sdk = fst (snd (GetGraphClient sdk ''t1'' ?cu 1))" for sdk :: "nat sdk"
  define cd1 where "cd1 sdk = fst (snd (GetGraphClient_part004 sdk ''t1'' ?cd 1))" for sdk :: "nat sdk"
  have now: "Now no_credential_sdk 0 = (0, 1)" "Now first_page_fails_sdk 0 = (0, 1)"
    "Now second_page_fails_sdk 0 = (0, 1)"
    by (simp_all add: fixture_defs)
  have u1: "GetGraphClient no_credential_sdk ''t1'' ?cu 1 =
      (Inl ''failed to create credential: no credential source'', cu1 no_credential_sdk, 2)"
    and u2: "GetGraphClient first_page_fails_sdk ''t1'' ?cu 1 =
      (Inr (GraphServiceClient 5), cu1 first_page_fails_sdk, 6)"
    and u3: "GetGraphClient second_page_fails_sdk ''t1'' ?cu 1 =
      (Inr (GraphServiceClient 5), cu1 second_page_fails_sdk, 6)"
    by (simp_all add: cu1_def collect_defs fixture_defs)
  have d1: "GetGraphClient_part004 no_credential_sdk ''t1'' ?cd 1 =
      (Inl ''failed to create credential: no credential source'', cd1 no_credential_sdk, 2)"
    and d2: "GetGraphClient_part004 first_page_fails_sdk ''t1'' ?cd 1 =
      (Inr (GraphServiceClient 4), cd1 first_page_fails_sdk, 5)"
    and d3: "GetGraphClient_part004 second_page_fails_sdk ''t1'' ?cd 1 =
      (Inr (GraphServiceClient 4), cd1 second_page_fails_sdk, 5)"
    by (simp_all add: cd1_def collect_defs fixture_defs)
  have uf2: "UsersGet first_page_fails_sdk (GraphServiceClient 5) (Some users_reqConfig) 6 =
      (Inl ''503 Service Unavailable'', 7)"
    and uf3: "UsersGet second_page_fails_sdk (GraphServiceClient 5) (Some users_reqConfig) 6 =
      (Inr (Some (linked_page [alice])), 7)"
    and ue3: "UsersGet second_page_fails_sdk (GraphServiceClient 5) None 7 =
      (Inl ''429 Too Many Requests'', 8)"
    and df2: "DevicesGet first_page_fails_sdk (GraphServiceClient 4) (Some devices_reqConfig) 5 =
      (Inl ''503 Service Unavailable'', 6)"
    and df3: "DevicesGet second_page_fails_sdk (GraphServiceClient 4) (Some devices_reqConfig) 5 =
      (Inr (Some (linked_page [laptop])), 6)"
    and de3: "DevicesGet second_page_fails_sdk (GraphServiceClient 4) None 6 =
      (Inl ''429 Too Many Requests'', 7)"
    by (simp_all add: fixture_defs)
  have ul: "pagination_loop (UsersGet second_page_fails_sdk (GraphServiceClient 5)) ''t1''
      (linked_page [alice]) (append_value [] (linked_page [alice])) (cu1 second_page_fails_sdk) 7 =
      Some (None, append_value [] (linked_page [alice]),
            (cu1 second_page_fails_sdk)
              \<lparr>scrapeErrors := CounterInc [''t1''] (scrapeErrors (cu1 second_page_fails_sdk))\<rparr>, 8)"
    using ue3 by (intro pagination_loop_error) (simp_all add: has_next_link_def linked_page_def)
  have dl: "pagination_loop (DevicesGet second_page_fails_sdk (GraphServiceClient 4)) ''t1''
      (linked_page [laptop]) (append_value [] (linked_page [laptop])) (cd1 second_page_fails_sdk) 6 =
      Some (None, append_value [] (linked_page [laptop]),
            (cd1 second_page_fails_sdk)
              \<lparr>scrapeErrors := CounterInc [''t1''] (scrapeErrors (cd1 second_page_fails_sdk))\<rparr>, 7)"
    using de3 by (intro pagination_loop_error) (simp_all add: has_next_link_def linked_page_def)
  have old: "scrapeDuration ?cu [''t1''] = None" "scrapeDuration ?cd [''t1''] = None"
    by (simp_all add: fixture_defs)
  have zero: "counter_value (scrapeErrors ?cu) [''t1''] = 0"
    "counter_value (scrapeErrors ?cd) [''t1''] = 0"
    by (simp_all add: counter_value_def fixture_defs)
  have clock: "Seconds (Sub (fst (Now second_page_fails_sdk 8)) 0) = 8"
    "real_of_int (Unix (fst (Now second_page_fails_sdk (snd (Now second_page_fails_sdk 8))))) = 9"
    "Seconds (Sub (fst (Now second_page_fails_sdk 7)) 0) = 7"
    "real_of_int (Unix (fst (Now second_page_fails_sdk (snd (Now second_page_fails_sdk 7))))) = 8"
    by (simp_all add: fixture_defs Seconds_exact Sub_def Unix_def Second_def)
  note a = scrape_metrics_recorded_after_first_page
    [where sdk = no_credential_sdk and T = "''t1''" and cu = ?cu and cd = ?cd and w = 0 and v = 0,
      THEN conjunct1, rule_format, OF conjI [OF now(1) u1]]
  note b = scrape_metrics_recorded_after_first_page
    [where sdk = first_page_fails_sdk and T = "''t1''" and cu = ?cu and cd = ?cd and w = 0 and v = 0,
      THEN conjunct2, THEN conjunct1, rule_format, OF conjI [OF now(2) conjI [OF u2 uf2]]]
  note c = scrape_metrics_recorded_after_first_page
    [where sdk = second_page_fails_sdk and T = "''t1''" and cu = ?cu and cd = ?cd and w = 0 and v = 0,
      THEN conjunct2, THEN conjunct2, THEN conjunct1, rule_format,
      OF conjI [OF now(3) conjI [OF u3 conjI [OF uf3 ul]]]]
  note d = scrape_metrics_recorded_after_first_page
    [where sdk = no_credential_sdk and T = "''t1''" and cu = ?cu and cd = ?cd and w = 0 and v = 0,
      THEN conjunct2, THEN conjunct2, THEN conjunct2, THEN conjunct1, rule_format,
      OF conjI [OF now(1) d1]]
  note e = scrape_metrics_recorded_after_first_page
    [where sdk = first_page_fails_sdk and T = "''t1''" and cu = ?cu and cd = ?cd and w = 0 and v = 0,
      THEN conjunct2, THEN conjunct2, THEN conjunct2, THEN conjunct2, THEN conjunct1, rule_format,
      OF conjI [OF now(2) conjI [OF d2 df2]]]
  note f = scrape_metrics_recorded_after_first_page
    [where sdk = second_page_fails_sdk and T = "''t1''" and cu = ?cu and cd = ?cd and w = 0 and v = 0,
      THEN conjunct2, THEN conjunct2, THEN conjunct2, THEN conjunct2, THEN conjunct2, rule_format,
      OF conjI [OF now(3) conjI [OF d3 conjI [OF df3 dl]]]]
  have failed_client:
    "fst (GetGraphClient no_credential_sdk ''t1'' ?cu 1) =
       Inl ''failed to create credential: no credential source''"
    "fst (GetGraphClient_part004 no_credential_sdk ''t1'' ?cd 1) =
       Inl ''failed to create credential: no credential source''"
    by (simp_all only: u1 d1 fst_conv)
  from a b c d e f failed_client uf2 df2 ue3 de3 show ?thesis
    by (simp add: old clock zero)
qed

text \<open>
  The claim as the specification states it fails: when no credential can be
  made for the tenant, or the tenant's first page cannot be fetched, the cycle
  observes no duration and sets no last scrape time for the tenant.
\<close>

theorem scrape_metrics_skipped_on_early_failure:
  "fst (GetGraphClient no_credential_sdk ''t1'' users_with_snapshot 1) =
     Inl ''failed to create credential: no credential source'' \<and>
   (\<exists>c' w'. UsersCollector_collect no_credential_sdk users_with_snapshot 0 = Some (None, c', w') \<and>
      scrapeErrors c' [''t1''] = Some 1 \<and>
      scrapeDuration c' [''t1''] = None \<and> lastScrapeTime c' [''t1''] = None) \<and>
   UsersGet first_page_fails_sdk (GraphServiceClient 5) (Some users_reqConfig) 6 =
     (Inl ''503 Service Unavailable'', 7) \<and>
   (\<exists>c' w'. UsersCollector_collect first_page_fails_sdk users_with_snapshot 0 = Some (None, c', w') \<and>
      scrapeErrors c' [''t1''] = Some 1 \<and>
      scrapeDuration c' [''t1''] = None \<and> lastScrapeTime c' [''t1''] = None)"
  by (simp add: collect_defs fixture_defs CounterInc_def)

subsection \<open>Disabled domains\<close>

text \<open>
  Claim C9. A collector configuration whose scrape interval is zero or negative
  is not enabled; for each of the three domains \<^verbatim>\<open>main\<close> wires up, a disabled
  domain has no collector constructed, no refresh loop spawned and none of the
  families it describes registered. No other domain ever gets a loop.
\<close>

theorem disabled_domain_is_never_set_up:
  "(\<forall>d. (sint (ScrapeTime d) :: int) \<le> 0 \<longrightarrow> \<not> IsEnabled d) \<and>
   ((sint (ScrapeTime (General cfg)) :: int) \<le> 0 \<longrightarrow>
      generalCollector (main_collectors cfg) = None \<and>
      ''general'' \<notin> set (goroutines (main_collectors cfg)) \<and>
      set GeneralCollector_Describe \<inter> set (registry (main_collectors cfg)) = {}) \<and>
   ((sint (ScrapeTime (Users cfg)) :: int) \<le> 0 \<longrightarrow>
      usersCollector (main_collectors cfg) = None \<and>
      ''users'' \<notin> set (goroutines (main_collectors cfg)) \<and>
      set UsersCollector_Describe \<inter> set (registry (main_collectors cfg)) = {}) \<and>
   ((sint (ScrapeTime (Devices cfg)) :: int) \<le> 0 \<longrightarrow>
      devicesCollector (main_collectors cfg) = None \<and>
      ''devices'' \<notin> set (goroutines (main_collectors cfg)) \<and>
      set DevicesCollector_Describe \<inter> set (registry (main_collectors cfg)) = {}) \<and>
   set (goroutines (main_collectors cfg)) \<subseteq> {''general'', ''users'', ''devices''}"
  using Describe_distinct
  by (auto simp add: IsEnabled_iff main_collectors_def Let_def)

theorem disabled_domain_is_never_set_up_witness:
  "(sint (ScrapeTime (General disabled_config)) :: int) \<le> 0 \<and>
   (sint (ScrapeTime (Users disabled_config)) :: int) \<le> 0 \<and>
   (sint (ScrapeTime (Devices disabled_config)) :: int) \<le> 0 \<and>
   \<not> IsEnabled (Users disabled_config) \<and>
   generalCollector (main_collectors disabled_config) = None \<and>
   usersCollector (main_collectors disabled_config) = None \<and>
   devicesCollector (main_collectors disabled_config) = None \<and>
   ''users'' \<notin> set (goroutines (main_collectors disabled_config)) \<and>
   set UsersCollector_Describe \<inter> set (registry (main_collectors disabled_config)) = {} \<and>
   IsEnabled (Users one_tenant_config) \<and>
   ''users'' \<in> set (goroutines (main_collectors one_tenant_config))"
proof -
  have g: "(sint (ScrapeTime (General disabled_config)) :: int) \<le> 0"
    and u: "(sint (ScrapeTime (Users disabled_config)) :: int) \<le> 0"
    and d: "(sint (ScrapeTime (Devices disabled_config)) :: int) \<le> 0"
    by (simp_all add: disabled_config_def one_tenant_config_def)
  have on: "IsEnabled (Users one_tenant_config)"
    "''users'' \<in> set (goroutines (main_collectors one_tenant_config))"
    by (simp_all add: IsEnabled_iff main_collectors_def Let_def one_tenant_config_def)
  from disabled_domain_is_never_set_up [of disabled_config] g u d on show ?thesis
    by simp
qed

subsection \<open>A tenant with no entities\<close>

text \<open>
  Claim C10. When a tenant's pass of the users or the devices collector fetches
  every page without an error (each page but the last carries a next link) and
  no page holds an entity, because the value list is \<^verbatim>\<open>nil\<close> or empty, the
  tenant's cache entry becomes the empty list whatever it held before, and a
  scrape that then runs to its end sets the tenant's total to 0.
\<close>

theorem empty_result_replaces_snapshot:
  "(Now sdk w = (start, w0) \<and>
    GetGraphClient sdk T cu w0 = (Inr client, cu1, w1) \<and>
    responses (UsersGet sdk client) (Some users_reqConfig # replicate (length pages) None) w1 =
      (map (\<lambda>p. Inr (Some p)) (first # pages), w3) \<and>
    (\<forall>p \<in> set (butlast (first # pages)). has_next_link p) \<and>
    \<not> has_next_link (last (first # pages)) \<and>
    entities (first # pages) = [] \<and>
    distinct (map fst (usersList cu)) \<longrightarrow>
    (\<exists>c' w'. UsersCollector_collect_tenant sdk T cu w = Some (None, c', w') \<and>
       usersList c' = AList.update T [] (usersList cu) \<and>
       map_of (usersList c') T = Some [] \<and>
       (\<forall>c''. UsersCollector_Collect c' = (None, c'') \<longrightarrow> usersTotal c'' [T] = Some 0))) \<and>
   (Now sdk v = (dstart, v0) \<and>
    GetGraphClient_part004 sdk T cd v0 = (Inr dclient, cd1, v1) \<and>
    responses (DevicesGet sdk dclient) (Some devices_reqConfig # replicate (length dpages) None) v1 =
      (map (\<lambda>p. Inr (Some p)) (dfirst # dpages), v3) \<and>
    (\<forall>p \<in> set (butlast (dfirst # dpages)). has_next_link p) \<and>
    \<not> has_next_link (last (dfirst # dpages)) \<and>
    entities (dfirst # dpages) = [] \<and>
    distinct (map fst (devicesList cd)) \<longrightarrow>
    (\<exists>c' v'. DevicesCollector_collect_tenant sdk T cd v = Some (None, c', v') \<and>
       devicesList c' = AList.update T [] (devicesList cd) \<and>
       map_of (devicesList c') T = Some [] \<and>
       (\<forall>c''. DevicesCollector_Collect sdk c' = (None, c'') \<longrightarrow> devicesTotal c'' [T] = Some 0)))"
proof (intro conjI impI; (elim conjE)?)
  assume now: "Now sdk w = (start, w0)"
    and client: "GetGraphClient sdk T cu w0 = (Inr client, cu1, w1)"
    and resp: "responses (UsersGet sdk client)
                 (Some users_reqConfig # replicate (length pages) None) w1 =
               (map (\<lambda>p. Inr (Some p)) (first # pages), w3)"
    and links: "\<forall>p \<in> set (butlast (first # pages)). has_next_link p"
    and final: "\<not> has_next_link (last (first # pages))"
    and none: "entities (first # pages) = []"
    and keys: "distinct (map fst (usersList cu))"
  define c' where "c' = fst (update_scrape_metrics sdk T start
      (cu1\<lparr>usersList := AList.update T (entities (first # pages)) (usersList cu1)\<rparr>) w3)"
  define w' where "w' = snd (update_scrape_metrics sdk T start
      (cu1\<lparr>usersList := AList.update T (entities (first # pages)) (usersList cu1)\<rparr>) w3)"
  have cu1: "cu1 = cu\<lparr>graphClients := graphClients cu1\<rparr>"
    using client by (rule GetGraphClient_frame)
  have list: "usersList c' = AList.update T [] (usersList cu)"
    unfolding c'_def update_scrape_metrics_eq none by (subst cu1) simp
  have run: "UsersCollector_collect_tenant sdk T cu w = Some (None, c', w')"
    unfolding UsersCollector_complete [OF now client resp links final] c'_def w'_def by simp
  have entry: "map_of (usersList c') T = Some []"
    by (simp add: list update_conv')
  have keys': "distinct (map fst (usersList c'))"
    using keys by (simp add: list distinct_update)
  have "usersTotal c'' [T] = Some 0" if "UsersCollector_Collect c' = (None, c'')" for c''
    using UsersCollector_Collect_total [OF that keys' entry] by simp
  with run entry list show "\<exists>c' w'. UsersCollector_collect_tenant sdk T cu w = Some (None, c', w') \<and>
       usersList c' = AList.update T [] (usersList cu) \<and>
       map_of (usersList c') T = Some [] \<and>
       (\<forall>c''. UsersCollector_Collect c' = (None, c'') \<longrightarrow> usersTotal c'' [T] = Some 0)"
    by blast
next
  assume now: "Now sdk v = (dstart, v0)"
    and client: "GetGraphClient_part004 sdk T cd v0 = (Inr dclient, cd1, v1)"
    and resp: "responses (DevicesGet sdk dclient)
                 (Some devices_reqConfig # replicate (length dpages) None) v1 =
               (map (\<lambda>p. Inr (Some p)) (dfirst # dpages), v3)"
    and links: "\<forall>p \<in> set (butlast (dfirst # dpages)). has_next_link p"
    and final: "\<not> has_next_link (last (dfirst # dpages))"
    and none: "entities (dfirst # dpages) = []"
    and keys: "distinct (map fst (devicesList cd))"
  define c' where "c' = fst (update_scrape_metrics sdk T dstart
      (cd1\<lparr>devicesList := AList.update T (entities (dfirst # dpages)) (devicesList cd1)\<rparr>) v3)"
  define v' where "v' = snd (update_scrape_metrics sdk T dstart
      (cd1\<lparr>devicesList := AList.update T (entities (dfirst # dpages)) (devicesList cd1)\<rparr>) v3)"
  have cd1: "cd1 = cd\<lparr>graphClients := graphClients cd1\<rparr>"
    using client by (rule GetGraphClient_part004_frame)
  have list: "devicesList c' = AList.update T [] (devicesList cd)"
    unfolding c'_def update_scrape_metrics_eq none by (subst cd1) simp
  have run: "DevicesCollector_collect_tenant sdk T cd v = Some (None, c', v')"
    unfolding DevicesCollector_complete [OF now client resp links final] c'_def v'_def by simp
  have entry: "map_of (devicesList c') T = Some []"
    by (simp add: list update_conv')
  have keys': "distinct (map fst (devicesList c'))"
    using keys by (simp add: list distinct_update)
  have "devicesTotal c'' [T] = Some 0" if "DevicesCollector_Collect sdk c' = (None, c'')" for c''
    using DevicesCollector_Collect_total [OF that keys' entry] by simp
  with run entry list show "\<exists>c' v'. DevicesCollector_collect_tenant sdk T cd v = Some (None, c', v') \<and>
       devicesList c' = AList.update T [] (devicesList cd) \<and>
       map_of (devicesList c') T = Some [] \<and>
       (\<forall>c''. DevicesCollector_Collect sdk c' = (None, c'') \<longrightarrow> devicesTotal c'' [T] = Some 0)"
    by blast
qed


theorem empty_result_replaces_snapshot_witness:
  "responses (UsersGet empty_directory_sdk (GraphServiceClient 5)) [Some users_reqConfig] 6 =
     ([Inr (Some no_value_page)], 7) \<and>
   map_of (usersList users_with_snapshot) ''t1'' = Some [alice, bob] \<and>
   (\<exists>c' w'. UsersCollector_collect_tenant empty_directory_sdk ''t1'' users_with_snapshot 0 =
               Some (None, c', w') \<and>
      usersList c' = [(''t1'', [])] \<and>
      fst (UsersCollector_Collect c') = None \<and>
      usersTotal (snd (UsersCollector_Collect c')) [''t1''] = Some 0) \<and>
   responses (DevicesGet empty_directory_sdk (GraphServiceClient 4)) [Some devices_reqConfig] 5 =
     ([Inr (Some no_value_page)], 6) \<and>
   map_of (devicesList devices_with_snapshot) ''t1'' = Some [laptop, phone] \<and>
   (\<exists>c' w'. DevicesCollector_collect_tenant empty_directory_sdk ''t1'' devices_with_snapshot 0 =
               Some (None, c', w') \<and>
      devicesList c' = [(''t1'', [])] \<and>
      fst (DevicesCollector_Collect empty_directory_sdk c') = None \<and>
      devicesTotal (snd (DevicesCollector_Collect empty_directory_sdk c')) [''t1''] = Some 0)"
proof -
  let ?sdk = empty_directory_sdk and ?cu = users_with_snapshot and ?cd = devices_with_snapshot
  define cu1 where "cu1 = fst (snd (GetGraphClient ?sdk ''t1'' ?cu 1))"
  define cd1 where "cd1 = fst (snd (GetGraphClient_part004 ?sdk ''t1'' ?cd 1))"
  have now: "Now ?sdk 0 = (0, 1)"
    by (simp add: fixture_defs)
  have uclient: "GetGraphClient ?sdk ''t1'' ?cu 1 = (Inr (GraphServiceClient 5), cu1, 6)"
    by (simp add: cu1_def collect_defs fixture_defs)
  have dclient: "GetGraphClient_part004 ?sdk ''t1'' ?cd 1 = (Inr (GraphServiceClient 4), cd1, 5)"
    by (simp add: cd1_def collect_defs fixture_defs)
  have uresp: "responses (UsersGet ?sdk (GraphServiceClient 5))
      (Some users_reqConfig # replicate (length []) None) 6 =
      (map (\<lambda>p. Inr (Some p)) (no_value_page # []), 7)"
    and dresp: "responses (DevicesGet ?sdk (GraphServiceClient 4))
      (Some devices_reqConfig # replicate (length []) None) 5 =
      (map (\<lambda>p. Inr (Some p)) (no_value_page # []), 6)"
    by (simp_all add: fixture_defs)
  have ulinks: "\<forall>p \<in> set (butlast ((no_value_page :: user collection_response) # [])). has_next_link p"
    and ufinal: "\<not> has_next_link (last ((no_value_page :: user collection_response) # []))"
    and unone: "entities ((no_value_page :: user collection_response) # []) = []"
    and dlinks: "\<forall>p \<in> set (butlast ((no_value_page :: device collection_response) # [])). has_next_link p"
    and dfinal: "\<not> has_next_link (last ((no_value_page :: device collection_response) # []))"
    and dnone: "entities ((no_value_page :: device collection_response) # []) = []"
    by (simp_all add: has_next_link_def no_value_page_def append_value_def)
  have ukeys: "distinct (map fst (usersList ?cu))" and dkeys: "distinct (map fst (devicesList ?cd))"
    and before: "map_of (usersList ?cu) ''t1'' = Some [alice, bob]"
      "map_of (devicesList ?cd) ''t1'' = Some [laptop, phone]"
    and lists: "AList.update ''t1'' [] (usersList ?cu) = [(''t1'', [])]"
      "AList.update ''t1'' [] (devicesList ?cd) = [(''t1'', [])]"
    by (simp_all add: fixture_defs)
  from empty_result_replaces_snapshot
    [where sdk = ?sdk and T = "''t1''" and w = 0 and cu = ?cu and pages = "[]"
      and first = no_value_page,
      THEN conjunct1, rule_format,
      OF conjI [OF now conjI [OF uclient conjI [OF uresp conjI [OF ulinks
           conjI [OF ufinal conjI [OF unone ukeys]]]]]]]
  obtain c' w' where u: "UsersCollector_collect_tenant ?sdk ''t1'' ?cu 0 = Some (None, c', w')"
    "usersList c' = [(''t1'', [])]"
    "\<And>c''. UsersCollector_Collect c' = (None, c'') \<Longrightarrow> usersTotal c'' [''t1''] = Some 0"
    by (auto simp add: lists)
  have ur: "fst (UsersCollector_Collect c') = None"
    by (simp add: UsersCollector_Collect_def u(2) split: prod.splits)
  with u(3) [of "snd (UsersCollector_Collect c')"]
  have ut: "usersTotal (snd (UsersCollector_Collect c')) [''t1''] = Some 0"
    by (metis prod.collapse)
  from empty_result_replaces_snapshot
    [where sdk = ?sdk and T = "''t1''" and v = 0 and cd = ?cd and dpages = "[]"
      and dfirst = no_value_page,
      THEN conjunct2, rule_format,
      OF conjI [OF now conjI [OF dclient conjI [OF dresp conjI [OF dlinks
           conjI [OF dfinal conjI [OF dnone dkeys]]]]]]]
  obtain d' v' where d: "DevicesCollector_collect_tenant ?sdk ''t1'' ?cd 0 = Some (None, d', v')"
    "devicesList d' = [(''t1'', [])]"
    "\<And>c''. DevicesCollector_Collect ?sdk d' = (None, c'') \<Longrightarrow> devicesTotal c'' [''t1''] = Some 0"
    by (auto simp add: lists)
  have dr: "fst (DevicesCollector_Collect ?sdk d') = None"
    by (simp add: DevicesCollector_Collect_def d(2) split: prod.splits)
  with d(3) [of "snd (DevicesCollector_Collect ?sdk d')"]
  have dt: "devicesTotal (snd (DevicesCollector_Collect ?sdk d')) [''t1''] = Some 0"
    by (metis prod.collapse)
  from uresp dresp before u(1,2) ur ut d(1,2) dr dt show ?thesis
    by simp
qed

end
